theory Spec2Isabelle
  imports Complex_Main
begin

section \<open>Rasters and the operations of the imagery backend\<close>

text \<open>
  The engine of \<^verbatim>\<open>utils/gee_utils.py\<close> is written against the raster interface of the
  imagery backend (\<^verbatim>\<open>select\<close>, \<^verbatim>\<open>add\<close>, \<^verbatim>\<open>subtract\<close>, \<^verbatim>\<open>multiply\<close>, \<^verbatim>\<open>divide\<close>,
  \<^verbatim>\<open>normalizedDifference\<close>, \<^verbatim>\<open>rename\<close>, \<^verbatim>\<open>addBands\<close>, \<^verbatim>\<open>reduceRegion\<close>). The client of
  the backend is deferred: a call builds an object that describes a computation and
  raises nothing; the computation runs when a value is requested, which in this
  repository is \<^verbatim>\<open>getInfo()\<close> in \<^verbatim>\<open>calculate_statistics\<close> or the drawing of a map
  layer. The model identifies such an object with what its evaluation gives: \<open>Inr\<close> of
  a raster, or \<open>Inl\<close> of the error that the evaluation reports.
  \<^item> A pixel is addressed by its index; a band gives every pixel a real number or no
    value (\<open>None\<close>: the pixel is masked).
  \<^item> An image is the ordered list of its named bands.
  \<^item> Arithmetic is pixelwise and over the reals; a pixel that is masked in an operand
    is masked in the result. \<^verbatim>\<open>divide\<close> returns 0 where the divisor is 0, as the backend
    documents it.
  \<^item> The evaluation of a selection fails when the image does not have the band, and
    the evaluation of an operation fails when that of an operand does. Of several
    failing operands the model reports the first.

  The errors are Python's \<^verbatim>\<open>KeyError\<close>, which \<^verbatim>\<open>custom[...]\<close> raises at the call, and
  the errors of the backend, which an evaluation reports: a band that is not there, an
  expression that is rejected, a region of more pixels than the call allows.
\<close>

type_synonym pixel = nat
type_synonym band = "pixel \<Rightarrow> real option"
type_synonym named_band = "string \<times> band"
type_synonym image = "named_band list"

datatype error =
    KeyError string
  | UnavailableBand string
  | MalformedExpression
  | TooManyPixels

type_synonym ee_band = "error + band"
type_synonym ee_named = "string \<times> ee_band"
type_synonym ee_image = "error + image"

definition and_then :: "error + 'a \<Rightarrow> ('a \<Rightarrow> error + 'b) \<Rightarrow> error + 'b" where
  "and_then r f = (case r of Inl e \<Rightarrow> Inl e | Inr x \<Rightarrow> f x)"

text \<open>
  \<^verbatim>\<open>image.select(b)\<close>, for an image that evaluates to \<open>img\<close>: the object evaluates to the
  band, or to an error when the image has no such band.
\<close>

definition select :: "image \<Rightarrow> string \<Rightarrow> ee_band" where
  "select img b = (case map_of img b of None \<Rightarrow> Inl (UnavailableBand b) | Some v \<Rightarrow> Inr v)"

definition const_band :: "real \<Rightarrow> band" where
  "const_band c = (\<lambda>p. Some c)"

text \<open>A number passed where an image is expected is the constant image of that value.\<close>

definition ee_constant :: "real \<Rightarrow> ee_band" where
  "ee_constant c = Inr (const_band c)"

definition band_add :: "band \<Rightarrow> band \<Rightarrow> band" where
  "band_add a b = (\<lambda>p. case (a p, b p) of (Some x, Some y) \<Rightarrow> Some (x + y) | _ \<Rightarrow> None)"

definition band_subtract :: "band \<Rightarrow> band \<Rightarrow> band" where
  "band_subtract a b = (\<lambda>p. case (a p, b p) of (Some x, Some y) \<Rightarrow> Some (x - y) | _ \<Rightarrow> None)"

definition band_multiply :: "band \<Rightarrow> band \<Rightarrow> band" where
  "band_multiply a b = (\<lambda>p. case (a p, b p) of (Some x, Some y) \<Rightarrow> Some (x * y) | _ \<Rightarrow> None)"

text \<open>The division of the backend: the first value by the second, and 0 for division by 0.\<close>

definition ee_quotient :: "real \<Rightarrow> real \<Rightarrow> real" where
  "ee_quotient x y = (if y = 0 then 0 else x / y)"

definition band_divide :: "band \<Rightarrow> band \<Rightarrow> band" where
  "band_divide a b =
     (\<lambda>p. case (a p, b p) of (Some x, Some y) \<Rightarrow> Some (ee_quotient x y) | _ \<Rightarrow> None)"

text \<open>An operation on two objects: both operands are evaluated, then the rasters combined.\<close>

definition deferred :: "(band \<Rightarrow> band \<Rightarrow> band) \<Rightarrow> ee_band \<Rightarrow> ee_band \<Rightarrow> ee_band" where
  "deferred f a b = and_then a (\<lambda>x. and_then b (\<lambda>y. Inr (f x y)))"

definition ee_add :: "ee_band \<Rightarrow> ee_band \<Rightarrow> ee_band" where
  "ee_add a b = deferred band_add a b"

definition ee_subtract :: "ee_band \<Rightarrow> ee_band \<Rightarrow> ee_band" where
  "ee_subtract a b = deferred band_subtract a b"

definition ee_multiply :: "ee_band \<Rightarrow> ee_band \<Rightarrow> ee_band" where
  "ee_multiply a b = deferred band_multiply a b"

definition ee_divide :: "ee_band \<Rightarrow> ee_band \<Rightarrow> ee_band" where
  "ee_divide a b = deferred band_divide a b"

text \<open>
  \<^verbatim>\<open>image.normalizedDifference([a, b])\<close> selects the two bands and computes
  \<open>(a - b) / (a + b)\<close>; the quotient is taken as that of \<^verbatim>\<open>divide\<close>. The band values of
  the Sentinel-2 product are unsigned, so the backend's masking of negative inputs is
  left out.
\<close>

definition normalizedDifference :: "image \<Rightarrow> string \<Rightarrow> string \<Rightarrow> ee_band" where
  "normalizedDifference img a b =
     deferred (\<lambda>x y. band_divide (band_subtract x y) (band_add x y)) (select img a) (select img b)"

definition rename :: "ee_band \<Rightarrow> string \<Rightarrow> ee_named" where
  "rename b name = (name, b)"

subsection \<open>Adding bands\<close>

text \<open>
  \<^verbatim>\<open>calculate_indices\<close> calls \<^verbatim>\<open>image.addBands(bands_to_add)\<close> with a Python list and
  without the \<^verbatim>\<open>overwrite\<close> argument. The list is first combined into one image, band
  by band, and that image is then added to the source image. With \<^verbatim>\<open>overwrite\<close> left
  at its default (false), a band whose name is already taken does not replace the band
  that has it: it is added under the name with a numeric suffix, \<^verbatim>\<open>foo_1\<close> unless that
  exists, then \<^verbatim>\<open>foo_2\<close>, and so on.
\<close>

fun dec :: "nat \<Rightarrow> string" where
  "dec n = (if n < 10 then [char_of (48 + n)]
            else dec (n div 10) @ [char_of (48 + n mod 10)])"

declare dec.simps [simp del]

definition suffixed :: "string \<Rightarrow> nat \<Rightarrow> string" where
  "suffixed n k = n @ ''_'' @ dec k"

definition fresh_name :: "string list \<Rightarrow> string \<Rightarrow> string" where
  "fresh_name names n =
     (if n \<notin> set names then n
      else (case find (\<lambda>c. c \<notin> set names) (map (suffixed n) [1..<length names + 2]) of
              Some c \<Rightarrow> c
            | None \<Rightarrow> n))"

definition add_band :: "image \<Rightarrow> named_band \<Rightarrow> image" where
  "add_band img nb = img @ [(fresh_name (map fst img) (fst nb), snd nb)]"

definition addBands :: "image \<Rightarrow> image \<Rightarrow> image" where
  "addBands dst src = foldl add_band dst src"

definition combine :: "named_band list \<Rightarrow> image" where
  "combine images = foldl add_band [] images"

text \<open>
  The image that \<^verbatim>\<open>addBands\<close> returns is built from every object of the list, so its
  evaluation needs the evaluation of each of them, in order.
\<close>

fun evaluated :: "ee_named list \<Rightarrow> error + named_band list" where
  "evaluated [] = Inr []"
| "evaluated ((n, r) # rest) =
     and_then r (\<lambda>b. and_then (evaluated rest) (\<lambda>bs. Inr ((n, b) # bs)))"

section \<open>The index catalog\<close>

text \<open>
  An entry of \<^verbatim>\<open>INDICES_CONFIG\<close> is a dictionary; the evaluator reads the keys
  \<^verbatim>\<open>formula\<close> and \<^verbatim>\<open>bands\<close> with \<^verbatim>\<open>cfg.get\<close>, so each is optional here (\<open>None\<close>: the
  key is absent). The display keys (palette, range, category, descriptions) are not read
  by the engine.
\<close>

record index_cfg =
  formula :: "string option"
  bands :: "string list option"

definition cfg :: "string \<Rightarrow> string list \<Rightarrow> index_cfg" where
  "cfg f bs = \<lparr>formula = Some f, bands = Some bs\<rparr>"

definition INDICES_CONFIG :: "(string \<times> index_cfg) list" where
  "INDICES_CONFIG =
     [(''NDVI'', cfg ''normalized_diff'' [''B8'', ''B4'']),
      (''EVI'', cfg ''evi'' [''B8'', ''B4'', ''B2'']),
      (''SAVI'', cfg ''savi'' [''B8'', ''B4'']),
      (''NDRE'', cfg ''normalized_diff'' [''B8'', ''B5'']),
      (''NDBI'', cfg ''normalized_diff'' [''B11'', ''B8'']),
      (''UI'', cfg ''normalized_diff'' [''B12'', ''B8A'']),
      (''IBI'', cfg ''ibi'' [''B11'', ''B8'', ''B3'', ''B4'']),
      (''NDMI'', cfg ''normalized_diff'' [''B8'', ''B11'']),
      (''NDWI'', cfg ''normalized_diff'' [''B3'', ''B8'']),
      (''MNDWI'', cfg ''normalized_diff'' [''B3'', ''B11'']),
      (''BSI'', cfg ''bsi'' [''B11'', ''B4'', ''B8'', ''B2'']),
      (''RI'', cfg ''normalized_diff'' [''B4'', ''B3'']),
      (''NBR'', cfg ''normalized_diff'' [''B8'', ''B12'']),
      (''BAI'', cfg ''normalized_diff'' [''B12'', ''B8A''])]"

section \<open>The band algebra evaluator\<close>

text \<open>
  \<^verbatim>\<open>_compute_index\<close> and \<^verbatim>\<open>_compute_custom_index\<close> return an object, return \<^verbatim>\<open>None\<close>, or
  raise: the result is \<open>Inr (Some b)\<close>, \<open>Inr None\<close> or \<open>Inl e\<close>. The object \<open>b\<close> is the
  name it was given by \<^verbatim>\<open>rename\<close> and what it evaluates to. No call of the backend's
  client raises, so \<^verbatim>\<open>_compute_index\<close> never does.
\<close>

text \<open>\<^verbatim>\<open>d.get(key, default)\<close>: the entry, or the default when the key is absent.\<close>

definition get_or :: "'a option \<Rightarrow> 'a \<Rightarrow> 'a" where
  "get_or entry dflt = (case entry of None \<Rightarrow> dflt | Some v \<Rightarrow> v)"

definition compute_index :: "image \<Rightarrow> string \<Rightarrow> index_cfg \<Rightarrow> error + ee_named option" where
  "compute_index img name c =
     (let f = get_or (formula c) ''normalized_diff'';
          bs = get_or (bands c) []
      in
      if f = ''normalized_diff'' \<and> length bs \<ge> 2 then
        Inr (Some (rename (normalizedDifference img (bs ! 0) (bs ! 1)) name))
      else if f = ''evi'' then
        let nir = ee_divide (select img ''B8'') (ee_constant 10000);
            red = ee_divide (select img ''B4'') (ee_constant 10000);
            blue = ee_divide (select img ''B2'') (ee_constant 10000);
            evi = ee_divide
                    (ee_multiply (ee_subtract nir red) (ee_constant 2.5))
                    (ee_add
                       (ee_subtract (ee_add nir (ee_multiply red (ee_constant 6)))
                          (ee_multiply blue (ee_constant 7.5)))
                       (ee_constant 1))
        in Inr (Some (rename evi name))
      else if f = ''savi'' then
        let L = 0.5;
            nir = ee_divide (select img ''B8'') (ee_constant 10000);
            red = ee_divide (select img ''B4'') (ee_constant 10000);
            savi = ee_multiply
                     (ee_divide (ee_subtract nir red) (ee_add (ee_add nir red) (ee_constant L)))
                     (ee_constant (1 + L))
        in Inr (Some (rename savi name))
      else if f = ''bsi'' then
        let swir = select img ''B11'';
            red = select img ''B4'';
            nir = select img ''B8'';
            blue = select img ''B2'';
            bsi = ee_divide
                    (ee_subtract (ee_add swir red) (ee_add nir blue))
                    (ee_add (ee_add swir red) (ee_add nir blue))
        in Inr (Some (rename bsi name))
      else if f = ''ibi'' then
        let ndbi = normalizedDifference img ''B11'' ''B8'';
            mndwi = normalizedDifference img ''B3'' ''B11'';
            L = 0.5;
            nir = ee_divide (select img ''B8'') (ee_constant 10000);
            red = ee_divide (select img ''B4'') (ee_constant 10000);
            savi = ee_multiply
                     (ee_divide (ee_subtract nir red) (ee_add (ee_add nir red) (ee_constant L)))
                     (ee_constant (1 + L));
            mean_savi_mndwi = ee_divide (ee_add savi mndwi) (ee_constant 2);
            ibi = ee_divide (ee_subtract ndbi mean_savi_mndwi) (ee_add ndbi mean_savi_mndwi)
        in Inr (Some (rename ibi name))
      else Inr None)"

text \<open>
  A user-defined index is a dictionary as well. \<^verbatim>\<open>name\<close>, \<^verbatim>\<open>formula\<close> and
  \<^verbatim>\<open>expression_bands\<close> are read with \<^verbatim>\<open>custom.get\<close>; \<^verbatim>\<open>band_a\<close>, \<^verbatim>\<open>band_b\<close> and
  \<^verbatim>\<open>expression\<close> are read with \<^verbatim>\<open>custom[...]\<close>, which raises \<^verbatim>\<open>KeyError\<close> when the key
  is absent.

  Parsing and evaluating the text of a free expression is done by the backend, when the
  object that \<^verbatim>\<open>image.expression(expr, band_map)\<close> returns is evaluated. It is the
  parameter \<open>ev\<close> of the model: any function from the image, the expression text and
  the variable bindings to what the object evaluates to.
\<close>

record custom_index =
  c_name :: "string option"
  c_formula :: "string option"
  band_a :: "string option"
  band_b :: "string option"
  expression :: "string option"
  expression_bands :: "(string \<times> string) list option"

type_synonym expression_eval = "image \<Rightarrow> string \<Rightarrow> (string \<times> ee_band) list \<Rightarrow> ee_band"

definition lookup :: "'a option \<Rightarrow> string \<Rightarrow> error + 'a" where
  "lookup field key = (case field of None \<Rightarrow> Inl (KeyError key) | Some v \<Rightarrow> Inr v)"

definition compute_custom_index ::
  "expression_eval \<Rightarrow> image \<Rightarrow> custom_index \<Rightarrow> error + ee_named option" where
  "compute_custom_index ev img custom =
     (let name = get_or (c_name custom) ''CUSTOM'';
          f = get_or (c_formula custom) ''normalized_diff''
      in
      if f = ''normalized_diff'' then
        and_then (lookup (band_a custom) ''band_a'') (\<lambda>a.
        and_then (lookup (band_b custom) ''band_b'') (\<lambda>b.
          Inr (Some (rename (normalizedDifference img a b) name))))
      else if f = ''ratio'' then
        and_then (lookup (band_a custom) ''band_a'') (\<lambda>a.
        and_then (lookup (band_b custom) ''band_b'') (\<lambda>b.
          Inr (Some (rename (ee_divide (select img a) (select img b)) name))))
      else if f = ''difference'' then
        and_then (lookup (band_a custom) ''band_a'') (\<lambda>a.
        and_then (lookup (band_b custom) ''band_b'') (\<lambda>b.
          Inr (Some (rename (ee_subtract (select img a) (select img b)) name))))
      else if f = ''expression'' then
        and_then (lookup (expression custom) ''expression'') (\<lambda>expr.
          let expr_map = get_or (expression_bands custom) [];
              band_map = map (\<lambda>(k, v). (k, select img v)) expr_map
          in Inr (Some (rename (ev img expr band_map) name)))
      else Inr None)"

section \<open>The index compositor\<close>

text \<open>
  Each evaluator call runs inside \<^verbatim>\<open>try: ... except Exception: pass\<close>: an object is
  staged when the call returned one, and nothing happens when it returned \<^verbatim>\<open>None\<close> or
  raised. The catalog is the module constant \<^verbatim>\<open>INDICES_CONFIG\<close>, passed here as the
  argument \<open>catalog\<close>. \<^verbatim>\<open>extra_indices\<close> is \<^verbatim>\<open>None\<close> or a list; the guard
  \<^verbatim>\<open>if extra_indices:\<close> skips the loop for \<^verbatim>\<open>None\<close> and for the empty list.
  \<^verbatim>\<open>calculate_indices\<close> itself raises nothing and returns an object; the result here is
  what that object evaluates to.
\<close>

fun stage :: "ee_named list \<Rightarrow> error + ee_named option \<Rightarrow> ee_named list" where
  "stage bands_to_add (Inr (Some b)) = bands_to_add @ [b]"
| "stage bands_to_add (Inr None) = bands_to_add"
| "stage bands_to_add (Inl e) = bands_to_add"

definition staged_bands ::
  "(string \<times> index_cfg) list \<Rightarrow> expression_eval \<Rightarrow> image \<Rightarrow> custom_index list option
     \<Rightarrow> ee_named list" where
  "staged_bands catalog ev img extra_indices =
     (let bands_to_add =
            foldl (\<lambda>acc (idx_name, c). stage acc (compute_index img idx_name c)) [] catalog
      in case extra_indices of
           None \<Rightarrow> bands_to_add
         | Some customs \<Rightarrow>
             foldl (\<lambda>acc custom. stage acc (compute_custom_index ev img custom))
               bands_to_add customs)"

definition calculate_indices ::
  "(string \<times> index_cfg) list \<Rightarrow> expression_eval \<Rightarrow> image \<Rightarrow> custom_index list option
     \<Rightarrow> ee_image" where
  "calculate_indices catalog ev img extra_indices =
     (let bands_to_add = staged_bands catalog ev img extra_indices
      in if bands_to_add \<noteq> []
         then and_then (evaluated bands_to_add) (\<lambda>bs. Inr (addBands img (combine bs)))
         else Inr img)"

section \<open>Region statistics\<close>

text \<open>
  \<^verbatim>\<open>calculate_statistics\<close> selects one band, reduces it over the region with the mean,
  the standard deviation, the minimum and the maximum, and fetches the result with
  \<^verbatim>\<open>getInfo()\<close>, which raises when the evaluation fails. The region is the list of the
  pixels, at the scale of the call, that lie in the geometry; the call allows
  \<^verbatim>\<open>maxPixels\<close> of them. A reducer takes the values of the pixels that are not masked
  and gives no value (\<^verbatim>\<open>None\<close> in the fetched dictionary) when there is none. The
  entries of the dictionary are named after the band and the reducer, in the order in
  which the reducers are combined.
\<close>

definition maxPixels :: nat where
  "maxPixels = 10 ^ 9"

definition mean_reducer :: "real list \<Rightarrow> real option" where
  "mean_reducer vs = (if vs = [] then None else Some (sum_list vs / real (length vs)))"

definition stdDev_reducer :: "real list \<Rightarrow> real option" where
  "stdDev_reducer vs =
     (if vs = [] then None
      else let m = sum_list vs / real (length vs)
           in Some (sqrt (sum_list (map (\<lambda>v. (v - m) ^ 2) vs) / real (length vs))))"

definition min_reducer :: "real list \<Rightarrow> real option" where
  "min_reducer vs = (if vs = [] then None else Some (fold min (tl vs) (hd vs)))"

definition max_reducer :: "real list \<Rightarrow> real option" where
  "max_reducer vs = (if vs = [] then None else Some (fold max (tl vs) (hd vs)))"

definition reduceRegion :: "band \<Rightarrow> pixel list \<Rightarrow> string \<Rightarrow> (string \<times> real option) list" where
  "reduceRegion b geometry name =
     (let vs = List.map_filter b geometry
      in [(name @ ''_mean'', mean_reducer vs), (name @ ''_stdDev'', stdDev_reducer vs),
          (name @ ''_min'', min_reducer vs), (name @ ''_max'', max_reducer vs)])"

definition calculate_statistics ::
  "ee_image \<Rightarrow> pixel list \<Rightarrow> string \<Rightarrow> error + (string \<times> real option) list" where
  "calculate_statistics im geometry index =
     and_then im (\<lambda>img.
     and_then (select img index) (\<lambda>b.
       if maxPixels < length geometry then Inl TooManyPixels
       else Inr (reduceRegion b geometry index)))"

section \<open>The collection query\<close>

text \<open>
  \<^verbatim>\<open>get_sentinel2_collection\<close> chains three filters over the archive
  \<^verbatim>\<open>COPERNICUS/S2_SR_HARMONIZED\<close> and returns the result; it does not sort. The archive
  is the argument \<open>archive\<close>, in the order in which the backend lists it. A geometry is
  the set of its points, and two geometries intersect when they share a point. Dates are
  timestamps in milliseconds; \<^verbatim>\<open>filterDate(start, end)\<close> keeps the scenes whose
  \<^verbatim>\<open>system:time_start\<close> lies in the range from \<open>start\<close> (inclusive) to \<open>end\<close>
  (exclusive). \<^verbatim>\<open>ee.Filter.lt\<close> keeps a scene whose property is present and smaller than
  the bound.
\<close>

record 'p scene =
  footprint :: "'p set"
  time_start :: int
  CLOUDY_PIXEL_PERCENTAGE :: "real option"

definition filterBounds :: "'p set \<Rightarrow> 'p scene list \<Rightarrow> 'p scene list" where
  "filterBounds geometry coll = filter (\<lambda>s. footprint s \<inter> geometry \<noteq> {}) coll"

definition filterDate :: "int \<Rightarrow> int \<Rightarrow> 'p scene list \<Rightarrow> 'p scene list" where
  "filterDate start_date end_date coll =
     filter (\<lambda>s. start_date \<le> time_start s \<and> time_start s < end_date) coll"

definition filter_lt_cloudy :: "real \<Rightarrow> 'p scene list \<Rightarrow> 'p scene list" where
  "filter_lt_cloudy bound coll =
     filter (\<lambda>s. case CLOUDY_PIXEL_PERCENTAGE s of None \<Rightarrow> False | Some c \<Rightarrow> c < bound) coll"

definition get_sentinel2_collection ::
  "'p scene list \<Rightarrow> 'p set \<Rightarrow> int \<Rightarrow> int \<Rightarrow> real \<Rightarrow> 'p scene list" where
  "get_sentinel2_collection archive geometry start_date end_date cloud_cover =
     filter_lt_cloudy cloud_cover
       (filterDate start_date end_date (filterBounds geometry archive))"

section \<open>The cache key\<close>

text \<open>
  \<^verbatim>\<open>generate_params_hash\<close> formats seven entries of the configuration dictionary into
  one string, joined by underscores, and returns the hexadecimal SHA-256 digest of it. A
  missing key raises \<^verbatim>\<open>KeyError\<close>. The formatting of a value inside the f-string and
  the digest are library functions: they are the parameters \<open>fmt\<close> and
  \<open>sha256_hexdigest\<close>.
\<close>

definition generate_params_hash ::
  "('v \<Rightarrow> string) \<Rightarrow> (string \<Rightarrow> string) \<Rightarrow> (string \<rightharpoonup> 'v) \<Rightarrow> error + string" where
  "generate_params_hash fmt sha256_hexdigest config =
     and_then (lookup (config ''site_name'') ''site_name'') (\<lambda>site_name.
     and_then (lookup (config ''center_lat'') ''center_lat'') (\<lambda>center_lat.
     and_then (lookup (config ''center_lon'') ''center_lon'') (\<lambda>center_lon.
     and_then (lookup (config ''buffer_km'') ''buffer_km'') (\<lambda>buffer_km.
     and_then (lookup (config ''start_date'') ''start_date'') (\<lambda>start_date.
     and_then (lookup (config ''end_date'') ''end_date'') (\<lambda>end_date.
     and_then (lookup (config ''cloud_cover'') ''cloud_cover'') (\<lambda>cloud_cover.
       let hash_input = fmt site_name @ ''_'' @ fmt center_lat @ ''_'' @ fmt center_lon
             @ ''_'' @ fmt buffer_km @ ''_'' @ fmt start_date @ ''_'' @ fmt end_date
             @ ''_'' @ fmt cloud_cover
       in Inr (sha256_hexdigest hash_input))))))))"

text \<open>The seven entries of the configuration that the cache key is computed from.\<close>

definition cache_key_fields :: "string list" where
  "cache_key_fields = [''site_name'', ''center_lat'', ''center_lon'', ''buffer_km'',
                       ''start_date'', ''end_date'', ''cloud_cover'']"

text \<open>
  A configuration whose values are already strings; the argument fills an entry that is
  not part of the cache key.
\<close>

definition example_config :: "string list \<Rightarrow> (string \<rightharpoonup> string)" where
  "example_config indices =
     [''site_name'' \<mapsto> ''Colosseum Rome (Italy)'', ''center_lat'' \<mapsto> ''41.8902'',
      ''center_lon'' \<mapsto> ''12.4922'', ''buffer_km'' \<mapsto> ''0.8'',
      ''start_date'' \<mapsto> ''2023-01-01'', ''end_date'' \<mapsto> ''2024-12-31'',
      ''cloud_cover'' \<mapsto> ''20'', ''indices'' \<mapsto> concat indices]"

text \<open>
  The formula kinds whose bands are fixed in the evaluator, the bands they read, and
  the formula kinds each evaluator knows.
\<close>

definition fixed_formulas :: "string list" where
  "fixed_formulas = [''evi'', ''savi'', ''bsi'', ''ibi'']"

definition hardcoded_bands :: "string list" where
  "hardcoded_bands = [''B2'', ''B3'', ''B4'', ''B8'', ''B11'']"

definition predefined_formulas :: "string list" where
  "predefined_formulas = [''normalized_diff'', ''evi'', ''savi'', ''bsi'', ''ibi'']"

definition custom_formulas :: "string list" where
  "custom_formulas = [''normalized_diff'', ''ratio'', ''difference'', ''expression'']"

text \<open>
  Example inputs: a two-band image with uniform near-infrared and red reflectance, and
  an archive of scenes over cells of a grid, in the order in which it is listed.
\<close>

definition two_band_image :: image where
  "two_band_image = [(''B8'', const_band 5000), (''B4'', const_band 1000)]"

definition example_archive :: "nat scene list" where
  "example_archive =
     [\<lparr>footprint = {2}, time_start = 1000, CLOUDY_PIXEL_PERCENTAGE = Some 0\<rparr>,
      \<lparr>footprint = {1, 2}, time_start = 500, CLOUDY_PIXEL_PERCENTAGE = Some 5\<rparr>,
      \<lparr>footprint = {7}, time_start = 450, CLOUDY_PIXEL_PERCENTAGE = Some 0\<rparr>,
      \<lparr>footprint = {2}, time_start = 400, CLOUDY_PIXEL_PERCENTAGE = Some 60\<rparr>,
      \<lparr>footprint = {2, 3}, time_start = 300, CLOUDY_PIXEL_PERCENTAGE = Some 10\<rparr>,
      \<lparr>footprint = {2}, time_start = 50, CLOUDY_PIXEL_PERCENTAGE = None\<rparr>]"

definition acquisition_times :: "'p scene list \<Rightarrow> int list" where
  "acquisition_times coll = map time_start coll"

text \<open>
  The formulas of the specification, on the raw values of one pixel. A primed value is
  the raw value divided by 10000. The division is that of the reals in HOL, which is 0
  for division by 0, as that of the backend is.
  EVI = 2.5 (NIR' - RED') / (NIR' + 6 RED' - 7.5 BLUE' + 1).
\<close>

definition spec_EVI :: "real \<Rightarrow> real \<Rightarrow> real \<Rightarrow> real" where
  "spec_EVI nir red blue =
     (let nir' = nir / 10000; red' = red / 10000; blue' = blue / 10000
      in 2.5 * (nir' - red') / (nir' + 6 * red' - 7.5 * blue' + 1))"

text \<open>
  IBI = (NDBI - avg(SAVI, MNDWI)) / (NDBI + avg(SAVI, MNDWI)) with
  NDBI = (SWIR1 - NIR) / (SWIR1 + NIR) and MNDWI = (GREEN - SWIR1) / (GREEN + SWIR1) on
  raw values, and SAVI = (1 + L) (NIR' - RED') / (NIR' + RED' + L), L = 0.5, on values
  divided by 10000.
\<close>

definition spec_IBI :: "real \<Rightarrow> real \<Rightarrow> real \<Rightarrow> real \<Rightarrow> real" where
  "spec_IBI green red nir swir1 =
     (let nir' = nir / 10000; red' = red / 10000; L = 0.5;
          ndbi = (swir1 - nir) / (swir1 + nir);
          mndwi = (green - swir1) / (green + swir1);
          savi = (1 + L) * (nir' - red') / (nir' + red' + L);
          avg = (savi + mndwi) / 2
      in (ndbi - avg) / (ndbi + avg))"

text \<open>A formula applied at every pixel where none of its input bands is masked.\<close>

definition pixelwise3 :: "(real \<Rightarrow> real \<Rightarrow> real \<Rightarrow> real) \<Rightarrow> band \<Rightarrow> band \<Rightarrow> band \<Rightarrow> band" where
  "pixelwise3 f a b c =
     (\<lambda>p. case a p of None \<Rightarrow> None | Some x \<Rightarrow>
          (case b p of None \<Rightarrow> None | Some y \<Rightarrow>
          (case c p of None \<Rightarrow> None | Some z \<Rightarrow> Some (f x y z))))"

definition pixelwise4 ::
  "(real \<Rightarrow> real \<Rightarrow> real \<Rightarrow> real \<Rightarrow> real) \<Rightarrow> band \<Rightarrow> band \<Rightarrow> band \<Rightarrow> band \<Rightarrow> band" where
  "pixelwise4 f a b c d =
     (\<lambda>p. case a p of None \<Rightarrow> None | Some w \<Rightarrow>
          (case b p of None \<Rightarrow> None | Some x \<Rightarrow>
          (case c p of None \<Rightarrow> None | Some y \<Rightarrow>
          (case d p of None \<Rightarrow> None | Some z \<Rightarrow> Some (f w x y z)))))"

text \<open>
  The evaluator calls that \<^verbatim>\<open>calculate_indices\<close> makes, in order (the catalog first,
  then the user-defined indices), and the object a call contributes: none when it
  returned \<^verbatim>\<open>None\<close> or raised.
\<close>

definition evaluations ::
  "(string \<times> index_cfg) list \<Rightarrow> expression_eval \<Rightarrow> image \<Rightarrow> custom_index list option
     \<Rightarrow> (error + ee_named option) list" where
  "evaluations catalog ev img extra_indices =
     map (\<lambda>(idx_name, c). compute_index img idx_name c) catalog
     @ map (compute_custom_index ev img) (get_or extra_indices [])"

fun produced :: "error + ee_named option \<Rightarrow> ee_named option" where
  "produced (Inr (Some b)) = Some b"
| "produced (Inr None) = None"
| "produced (Inl e) = None"

definition four_band_image :: image where
  "four_band_image =
     [(''B3'', const_band 800), (''B4'', const_band 1000), (''B8'', const_band 5000),
      (''B11'', const_band 2000)]"

text \<open>An image with every band that the catalog reads.\<close>

definition full_image :: image where
  "full_image =
     [(''B2'', const_band 500), (''B3'', const_band 800), (''B4'', const_band 1000),
      (''B5'', const_band 1500), (''B8'', const_band 5000), (''B8A'', const_band 5200),
      (''B11'', const_band 2000), (''B12'', const_band 1200)]"

text \<open>A user-defined index of a formula kind the evaluator does not know.\<close>

definition unknown_custom :: custom_index where
  "unknown_custom =
     \<lparr>c_name = Some ''SUM'', c_formula = Some ''sum'', band_a = Some ''B8'',
      band_b = Some ''B4'', expression = None, expression_bands = None\<rparr>"

text \<open>
  Two expression evaluators for the examples: one that rejects every expression, and
  one for the expressions that consist of one variable, which evaluate to what the
  variable is bound to and are rejected when it is not bound.
\<close>

definition no_expression :: expression_eval where
  "no_expression img expr band_map = Inl MalformedExpression"

definition variable_expression :: expression_eval where
  "variable_expression img expr band_map =
     (case map_of band_map expr of None \<Rightarrow> Inl MalformedExpression | Some b \<Rightarrow> b)"

text \<open>Reading a decimal numeral back: the left inverse of \<open>dec\<close>.\<close>

definition undec :: "string \<Rightarrow> nat" where
  "undec s = foldl (\<lambda>a c. 10 * a + (of_char c - 48)) 0 s"

text \<open>A name with the numeric suffix \<open>k\<close>, or the name itself for \<open>k = 0\<close>.\<close>

definition numbered :: "string \<Rightarrow> nat \<Rightarrow> string" where
  "numbered n k = (if k = 0 then n else suffixed n k)"

text \<open>The names and the pixel values of a result, band by band, at one pixel.\<close>

definition pixel_values :: "ee_image \<Rightarrow> pixel \<Rightarrow> error + (string \<times> real option) list" where
  "pixel_values r p = (case r of Inl e \<Rightarrow> Inl e | Inr img \<Rightarrow> Inr (map (\<lambda>(n, b). (n, b p)) img))"

definition band_names :: "ee_image \<Rightarrow> error + string list" where
  "band_names r = (case r of Inl e \<Rightarrow> Inl e | Inr img \<Rightarrow> Inr (map fst img))"

definition value_at :: "ee_image \<Rightarrow> string \<Rightarrow> pixel \<Rightarrow> error + real option" where
  "value_at r name p = and_then r (\<lambda>img. and_then (select img name) (\<lambda>b. Inr (b p)))"

text \<open>
  The bands that \<^verbatim>\<open>addBands\<close> appends to the destination image, and the bands that
  \<^verbatim>\<open>calculate_indices\<close> appends to its input when the staged objects evaluate to \<open>bs\<close>.
\<close>

definition added_bands :: "image \<Rightarrow> image \<Rightarrow> image" where
  "added_bands dst src = drop (length dst) (addBands dst src)"

definition derived_bands :: "image \<Rightarrow> named_band list \<Rightarrow> image" where
  "derived_bands img bs = added_bands img (combine bs)"

text \<open>
  User-defined indices for the examples: the difference B8 - B4 under a chosen name, a
  ratio that refers to a band the full image lacks, an expression with a variable that
  is bound and one with a variable that is not, and the ratio of two bands.
\<close>

definition difference_custom :: "string \<Rightarrow> custom_index" where
  "difference_custom name =
     \<lparr>c_name = Some name, c_formula = Some ''difference'', band_a = Some ''B8'',
      band_b = Some ''B4'', expression = None, expression_bands = None\<rparr>"

definition missing_band_custom :: custom_index where
  "missing_band_custom =
     \<lparr>c_name = Some ''RATIO'', c_formula = Some ''ratio'', band_a = Some ''B8'',
      band_b = Some ''B1'', expression = None, expression_bands = None\<rparr>"

definition bound_custom :: custom_index where
  "bound_custom =
     \<lparr>c_name = Some ''EXPR'', c_formula = Some ''expression'', band_a = None,
      band_b = None, expression = Some ''NIR'',
      expression_bands = Some [(''NIR'', ''B8'')]\<rparr>"

definition unbound_custom :: custom_index where
  "unbound_custom =
     \<lparr>c_name = Some ''EXPR'', c_formula = Some ''expression'', band_a = None,
      band_b = None, expression = Some ''RED'',
      expression_bands = Some [(''NIR'', ''B8'')]\<rparr>"

definition ratio_custom :: "string \<Rightarrow> string \<Rightarrow> custom_index" where
  "ratio_custom a b =
     \<lparr>c_name = Some ''RATIO'', c_formula = Some ''ratio'', band_a = Some a,
      band_b = Some b, expression = None, expression_bands = None\<rparr>"

text \<open>The full image with two more bands, both zero on every pixel.\<close>

definition dark_image :: image where
  "dark_image = full_image @ [(''B6'', const_band 0), (''B7'', const_band 0)]"

text \<open>An image on which the denominator of EVI is zero: 0.5 + 6 * 0 - 7.5 * 0.2 + 1.\<close>

definition evi_zero_image :: image where
  "evi_zero_image = [(''B2'', const_band 2000), (''B4'', const_band 0), (''B8'', const_band 5000)]"

text \<open>An image of one band that is masked on every pixel.\<close>

definition masked_image :: image where
  "masked_image = [(''RATIO'', \<lambda>p. None)]"

section \<open>Verified properties\<close>

subsection \<open>Cache key\<close>

text \<open>
  C8. The cache key depends on the configuration only through the seven entries site
  name, latitude, longitude, buffer radius, start date, end date and cloud ceiling: two
  configurations that agree on these seven entries get the same result (the same key, or
  the same \<^verbatim>\<open>KeyError\<close>), whatever their other entries are, for every formatting
  function and every digest. The key is a function of the configuration, so two runs on
  one configuration give one key.
\<close>

theorem generate_params_hash_seven_fields:
  assumes "\<forall>k \<in> set cache_key_fields. c1 k = c2 k"
  shows "generate_params_hash fmt sha256_hexdigest c1 = generate_params_hash fmt sha256_hexdigest c2"
  using assms by (simp add: generate_params_hash_def cache_key_fields_def)

theorem generate_params_hash_seven_fields_witness:
  "map (example_config [''NDVI'']) cache_key_fields
     = map (example_config [''NDBI'']) cache_key_fields
   \<and> example_config [''NDVI''] ''indices'' \<noteq> example_config [''NDBI''] ''indices''
   \<and> generate_params_hash id id (example_config [''NDVI''])
       = generate_params_hash id id (example_config [''NDBI''])"
proof -
  have m: "map (example_config [''NDVI'']) cache_key_fields
             = map (example_config [''NDBI'']) cache_key_fields"
    by (simp add: cache_key_fields_def example_config_def)
  then have h: "\<forall>k \<in> set cache_key_fields. example_config [''NDVI''] k = example_config [''NDBI''] k"
    by (simp only: map_eq_conv)
  have d: "example_config [''NDVI''] ''indices'' \<noteq> example_config [''NDBI''] ''indices''"
    by (simp add: example_config_def)
  show ?thesis
    using m d generate_params_hash_seven_fields [OF h, of id id] by blast
qed

subsection \<open>The evaluator, branch by branch\<close>

lemma get_or_simps [simp]: "get_or (Some v) d = v" "get_or None d = d"
  by (simp_all add: get_or_def)

lemma and_then_Inr [simp]: "and_then (Inr x) f = f x"
  by (simp add: and_then_def)

lemma and_then_Inl [simp]: "and_then (Inl e) f = Inl e"
  by (simp add: and_then_def)

lemma deferred_Inr [simp]: "deferred f (Inr x) (Inr y) = Inr (f x y)"
  by (simp add: deferred_def)

lemma ee_quotient_divide: "ee_quotient x y = x / y"
  by (simp add: ee_quotient_def)

lemma select_cong: "map_of img b = map_of img' b \<Longrightarrow> select img b = select img' b"
  unfolding select_def by simp

lemma normalizedDifference_cong:
  assumes "map_of img a = map_of img' a" and "map_of img b = map_of img' b"
  shows "normalizedDifference img a b = normalizedDifference img' a b"
  unfolding normalizedDifference_def select_cong [OF assms(1)] select_cong [OF assms(2)]
  by (rule refl)

lemma select_present: "map_of img b = Some v \<Longrightarrow> select img b = Inr v"
  by (simp add: select_def)

lemma select_absent: "map_of img b = None \<Longrightarrow> select img b = Inl (UnavailableBand b)"
  by (simp add: select_def)

lemma normalizedDifference_present:
  assumes "map_of img a = Some x" and "map_of img b = Some y"
  shows "normalizedDifference img a b = Inr (band_divide (band_subtract x y) (band_add x y))"
  unfolding normalizedDifference_def select_present [OF assms(1)] select_present [OF assms(2)]
  by simp

lemma compute_index_evi:
  "formula c = Some ''evi'' \<Longrightarrow>
   compute_index img name c =
     Inr (Some (name,
       ee_divide
         (ee_multiply
            (ee_subtract (ee_divide (select img ''B8'') (ee_constant 10000))
               (ee_divide (select img ''B4'') (ee_constant 10000)))
            (ee_constant 2.5))
         (ee_add
            (ee_subtract
               (ee_add (ee_divide (select img ''B8'') (ee_constant 10000))
                  (ee_multiply (ee_divide (select img ''B4'') (ee_constant 10000))
                     (ee_constant 6)))
               (ee_multiply (ee_divide (select img ''B2'') (ee_constant 10000))
                  (ee_constant 7.5)))
            (ee_constant 1))))"
  by (simp add: compute_index_def Let_def rename_def)

lemma compute_index_savi:
  "formula c = Some ''savi'' \<Longrightarrow>
   compute_index img name c =
     Inr (Some (name,
       ee_multiply
         (ee_divide
            (ee_subtract (ee_divide (select img ''B8'') (ee_constant 10000))
               (ee_divide (select img ''B4'') (ee_constant 10000)))
            (ee_add
               (ee_add (ee_divide (select img ''B8'') (ee_constant 10000))
                  (ee_divide (select img ''B4'') (ee_constant 10000)))
               (ee_constant 0.5)))
         (ee_constant (1 + 0.5))))"
  by (simp add: compute_index_def Let_def rename_def)

lemma compute_index_bsi:
  "formula c = Some ''bsi'' \<Longrightarrow>
   compute_index img name c =
     Inr (Some (name,
       ee_divide
         (ee_subtract (ee_add (select img ''B11'') (select img ''B4''))
            (ee_add (select img ''B8'') (select img ''B2'')))
         (ee_add (ee_add (select img ''B11'') (select img ''B4''))
            (ee_add (select img ''B8'') (select img ''B2'')))))"
  by (simp add: compute_index_def Let_def rename_def)

lemma compute_index_ibi:
  "formula c = Some ''ibi'' \<Longrightarrow>
   compute_index img name c =
     Inr (Some (name,
       ee_divide
         (ee_subtract (normalizedDifference img ''B11'' ''B8'')
            (ee_divide
               (ee_add
                  (ee_multiply
                     (ee_divide
                        (ee_subtract (ee_divide (select img ''B8'') (ee_constant 10000))
                           (ee_divide (select img ''B4'') (ee_constant 10000)))
                        (ee_add
                           (ee_add (ee_divide (select img ''B8'') (ee_constant 10000))
                              (ee_divide (select img ''B4'') (ee_constant 10000)))
                           (ee_constant 0.5)))
                     (ee_constant (1 + 0.5)))
                  (normalizedDifference img ''B3'' ''B11''))
               (ee_constant 2)))
         (ee_add (normalizedDifference img ''B11'' ''B8'')
            (ee_divide
               (ee_add
                  (ee_multiply
                     (ee_divide
                        (ee_subtract (ee_divide (select img ''B8'') (ee_constant 10000))
                           (ee_divide (select img ''B4'') (ee_constant 10000)))
                        (ee_add
                           (ee_add (ee_divide (select img ''B8'') (ee_constant 10000))
                              (ee_divide (select img ''B4'') (ee_constant 10000)))
                           (ee_constant 0.5)))
                     (ee_constant (1 + 0.5)))
                  (normalizedDifference img ''B3'' ''B11''))
               (ee_constant 2)))))"
  by (simp add: compute_index_def Let_def rename_def)

lemma compute_index_no_band:
  assumes "get_or (formula c) ''normalized_diff'' \<notin> set predefined_formulas
           \<or> get_or (formula c) ''normalized_diff'' = ''normalized_diff''
             \<and> length (get_or (bands c) []) < 2"
  shows "compute_index img name c = Inr None"
proof -
  from assms consider
      (unknown) "get_or (formula c) ''normalized_diff'' \<notin> set predefined_formulas"
    | (short) "get_or (formula c) ''normalized_diff'' = ''normalized_diff''"
        "length (get_or (bands c) []) < 2"
    by blast
  then show ?thesis
  proof cases
    case unknown
    then show ?thesis by (simp add: compute_index_def predefined_formulas_def Let_def)
  next
    case short
    then show ?thesis by (simp add: compute_index_def Let_def)
  qed
qed

lemma compute_custom_index_no_band:
  assumes "get_or (c_formula custom) ''normalized_diff'' \<notin> set custom_formulas"
  shows "compute_custom_index ev img custom = Inr None"
  using assms by (simp add: compute_custom_index_def custom_formulas_def Let_def)

subsection \<open>Fixed formulas and the band list of a definition\<close>

text \<open>
  C9. For the formula kinds EVI, SAVI, BSI and IBI the evaluator does not read the band
  list of the definition: two definitions of one of these kinds that differ only in
  their band list give the same result (the same object: the same band, pixel for pixel,
  or the same failure) on every image. The result depends on the image only through the
  bands B2, B3, B4, B8 and B11, which the evaluator names itself.
\<close>

theorem compute_index_ignores_bands:
  assumes "formula c = Some f" and "f \<in> set fixed_formulas"
    and "\<forall>b \<in> set hardcoded_bands. map_of img b = map_of img' b"
  shows "compute_index img name (c\<lparr>bands := bs1\<rparr>) = compute_index img' name (c\<lparr>bands := bs2\<rparr>)"
proof -
  from assms(3) have m: "map_of img ''B2'' = map_of img' ''B2''"
    "map_of img ''B3'' = map_of img' ''B3''" "map_of img ''B4'' = map_of img' ''B4''"
    "map_of img ''B8'' = map_of img' ''B8''" "map_of img ''B11'' = map_of img' ''B11''"
    by (simp_all add: hardcoded_bands_def)
  have s: "select img ''B2'' = select img' ''B2''"
    "select img ''B4'' = select img' ''B4''" "select img ''B8'' = select img' ''B8''"
    "select img ''B11'' = select img' ''B11''"
    "normalizedDifference img ''B11'' ''B8'' = normalizedDifference img' ''B11'' ''B8''"
    "normalizedDifference img ''B3'' ''B11'' = normalizedDifference img' ''B3'' ''B11''"
    by (rule select_cong normalizedDifference_cong, rule m, (rule m)?)+
  from assms(2) consider "f = ''evi''" | "f = ''savi''" | "f = ''bsi''" | "f = ''ibi''"
    by (auto simp: fixed_formulas_def)
  then show ?thesis
  proof cases
    case 1
    with assms(1) have "formula (c\<lparr>bands := bs1\<rparr>) = Some ''evi''"
      "formula (c\<lparr>bands := bs2\<rparr>) = Some ''evi''" by simp_all
    then show ?thesis by (simp only: compute_index_evi s)
  next
    case 2
    with assms(1) have "formula (c\<lparr>bands := bs1\<rparr>) = Some ''savi''"
      "formula (c\<lparr>bands := bs2\<rparr>) = Some ''savi''" by simp_all
    then show ?thesis by (simp only: compute_index_savi s)
  next
    case 3
    with assms(1) have "formula (c\<lparr>bands := bs1\<rparr>) = Some ''bsi''"
      "formula (c\<lparr>bands := bs2\<rparr>) = Some ''bsi''" by simp_all
    then show ?thesis by (simp only: compute_index_bsi s)
  next
    case 4
    with assms(1) have "formula (c\<lparr>bands := bs1\<rparr>) = Some ''ibi''"
      "formula (c\<lparr>bands := bs2\<rparr>) = Some ''ibi''" by simp_all
    then show ?thesis by (simp only: compute_index_ibi s)
  qed
qed

theorem compute_index_ignores_bands_witness:
  "formula (cfg ''savi'' []) = Some ''savi'' \<and> ''savi'' \<in> set fixed_formulas
   \<and> map (map_of two_band_image) hardcoded_bands
       = map (map_of (two_band_image @ [(''B5'', const_band 7)])) hardcoded_bands
   \<and> compute_index two_band_image ''SAVI'' ((cfg ''savi'' [])\<lparr>bands := Some [''B8'', ''B4'']\<rparr>)
       = compute_index (two_band_image @ [(''B5'', const_band 7)]) ''SAVI''
           ((cfg ''savi'' [])\<lparr>bands := None\<rparr>)"
proof -
  have f: "formula (cfg ''savi'' []) = Some ''savi''" by (simp add: cfg_def)
  have k: "''savi'' \<in> set fixed_formulas" by (simp add: fixed_formulas_def)
  have m: "map (map_of two_band_image) hardcoded_bands
             = map (map_of (two_band_image @ [(''B5'', const_band 7)])) hardcoded_bands"
    by (simp add: hardcoded_bands_def two_band_image_def)
  then have b: "\<forall>b \<in> set hardcoded_bands.
             map_of two_band_image b = map_of (two_band_image @ [(''B5'', const_band 7)]) b"
    by (simp only: map_eq_conv)
  show ?thesis
    using f k m compute_index_ignores_bands [OF f k b] by blast
qed

subsection \<open>The collection query\<close>

lemma get_sentinel2_collection_filter:
  "get_sentinel2_collection archive geometry start_date end_date cloud_cover =
     filter (\<lambda>s. footprint s \<inter> geometry \<noteq> {}
                \<and> start_date \<le> time_start s \<and> time_start s < end_date
                \<and> (\<exists>c. CLOUDY_PIXEL_PERCENTAGE s = Some c \<and> c < cloud_cover)) archive"
proof -
  have "(case x of None \<Rightarrow> False | Some c \<Rightarrow> c < cloud_cover)
          = (\<exists>c. x = Some c \<and> c < cloud_cover)" for x :: "real option"
    by (cases x) simp_all
  then show ?thesis
    by (simp add: get_sentinel2_collection_def filter_lt_cloudy_def filterDate_def
          filterBounds_def conj_commute conj_left_commute)
qed

text \<open>
  C5. Every scene the query returns intersects the geometry, has its acquisition time
  within the range from the start date to the end date, both ends included, and has a
  cloud-cover value strictly below the ceiling; so no scene that violates one of the
  three conditions is returned.
\<close>

theorem query_results_satisfy_filters:
  "\<forall>s \<in> set (get_sentinel2_collection archive geometry start_date end_date cloud_cover).
     footprint s \<inter> geometry \<noteq> {}
     \<and> start_date \<le> time_start s \<and> time_start s \<le> end_date
     \<and> (\<exists>c. CLOUDY_PIXEL_PERCENTAGE s = Some c \<and> c < cloud_cover)"
  by (auto simp: get_sentinel2_collection_filter)

theorem query_results_satisfy_filters_witness:
  "\<lparr>footprint = {2, 3}, time_start = 300, CLOUDY_PIXEL_PERCENTAGE = Some 10\<rparr>
     \<in> set (get_sentinel2_collection example_archive {2 :: nat} 100 1000 20)
   \<and> {2, 3} \<inter> {2 :: nat} \<noteq> {} \<and> (100 :: int) \<le> 300 \<and> (300 :: int) \<le> 1000
   \<and> (10 :: real) < 20"
proof -
  let ?s = "\<lparr>footprint = {2, 3 :: nat}, time_start = 300, CLOUDY_PIXEL_PERCENTAGE = Some 10\<rparr>"
  have m: "?s \<in> set (get_sentinel2_collection example_archive {2} 100 1000 20)"
    by (simp add: get_sentinel2_collection_filter example_archive_def)
  have "footprint ?s \<inter> {2} \<noteq> {}
        \<and> 100 \<le> time_start ?s \<and> time_start ?s \<le> 1000
        \<and> (\<exists>c. CLOUDY_PIXEL_PERCENTAGE ?s = Some c \<and> c < 20)"
    using query_results_satisfy_filters [of example_archive "{2}" 100 1000 20] m
    by (rule bspec)
  with m show ?thesis by simp
qed

text \<open>
  C6, as the code has it. The query does not sort: it returns the scenes of the archive
  that pass the three filters, in the order in which the archive lists them. The result
  is ascending by acquisition time whenever the archive is.
\<close>

theorem query_keeps_archive_order:
  "get_sentinel2_collection archive geometry start_date end_date cloud_cover =
     filter (\<lambda>s. footprint s \<inter> geometry \<noteq> {}
                \<and> start_date \<le> time_start s \<and> time_start s < end_date
                \<and> (\<exists>c. CLOUDY_PIXEL_PERCENTAGE s = Some c \<and> c < cloud_cover)) archive
   \<and> (sorted (acquisition_times archive) \<longrightarrow>
        sorted (acquisition_times
          (get_sentinel2_collection archive geometry start_date end_date cloud_cover)))"
  by (simp add: get_sentinel2_collection_filter acquisition_times_def sorted_map sorted_wrt_filter)

theorem query_keeps_archive_order_witness:
  "sorted (acquisition_times (rev example_archive))
   \<and> acquisition_times (get_sentinel2_collection (rev example_archive) {2 :: nat} 100 1000 20)
       = [300, 500]"
proof -
  have s: "sorted (acquisition_times (rev example_archive))"
    by (simp add: acquisition_times_def example_archive_def)
  have "acquisition_times (get_sentinel2_collection (rev example_archive) {2 :: nat} 100 1000 20)
          = [300, 500]"
    by (simp add: get_sentinel2_collection_filter acquisition_times_def example_archive_def)
  with s query_keeps_archive_order [of "rev example_archive" "{2}" 100 1000 20]
  show ?thesis by simp
qed

text \<open>
  The claim as stated fails on an archive that is not listed by acquisition time: two
  qualifying scenes come back in archive order, the later one first.
\<close>

theorem query_not_sorted_counterexample:
  "acquisition_times (get_sentinel2_collection example_archive {2 :: nat} 100 1000 20)
     = [500, 300]
   \<and> \<not> sorted (acquisition_times
         (get_sentinel2_collection example_archive {2 :: nat} 100 1000 20))"
  by (simp add: get_sentinel2_collection_filter acquisition_times_def example_archive_def)

subsection \<open>EVI and IBI\<close>

lemma evi_raster:
  "band_divide
     (band_multiply
        (band_subtract (band_divide nir (const_band 10000))
           (band_divide red (const_band 10000)))
        (const_band 2.5))
     (band_add
        (band_subtract
           (band_add (band_divide nir (const_band 10000))
              (band_multiply (band_divide red (const_band 10000)) (const_band 6)))
           (band_multiply (band_divide blue (const_band 10000)) (const_band 7.5)))
        (const_band 1))
   = pixelwise3 spec_EVI nir red blue" (is "?code = ?spec")
proof
  fix p
  show "?code p = ?spec p"
    by (cases "nir p"; cases "red p"; cases "blue p")
       (simp_all add: band_divide_def band_multiply_def band_subtract_def band_add_def
          const_band_def pixelwise3_def spec_EVI_def Let_def ee_quotient_divide mult.commute)
qed

text \<open>
  C7. On an image that provides B2, B4 and B8, the EVI branch returns an object named as
  asked that evaluates to the band whose value at every pixel is
  2.5 (NIR' - RED') / (NIR' + 6 RED' - 7.5 BLUE' + 1), each primed value being the raw
  band value divided by 10000 (masked where one of the three bands is; 0 where the
  denominator is zero).
\<close>

theorem compute_index_evi_formula:
  assumes "formula c = Some ''evi''"
    and "map_of img ''B2'' = Some blue" and "map_of img ''B4'' = Some red"
    and "map_of img ''B8'' = Some nir"
  shows "compute_index img name c = Inr (Some (name, Inr (pixelwise3 spec_EVI nir red blue)))"
proof -
  have "compute_index img name c =
          Inr (Some (name, Inr
            (band_divide
               (band_multiply
                  (band_subtract (band_divide nir (const_band 10000))
                     (band_divide red (const_band 10000)))
                  (const_band 2.5))
               (band_add
                  (band_subtract
                     (band_add (band_divide nir (const_band 10000))
                        (band_multiply (band_divide red (const_band 10000)) (const_band 6)))
                     (band_multiply (band_divide blue (const_band 10000)) (const_band 7.5)))
                  (const_band 1)))))"
    by (simp only: compute_index_evi [OF assms(1)] select_present [OF assms(2)]
          select_present [OF assms(3)] select_present [OF assms(4)] ee_divide_def
          ee_multiply_def ee_subtract_def ee_add_def ee_constant_def deferred_Inr)
  then show ?thesis by (simp only: evi_raster)
qed

theorem compute_index_evi_formula_witness:
  "formula (cfg ''evi'' [''B8'', ''B4'', ''B2'']) = Some ''evi''
   \<and> map_of ((''B2'', const_band 500) # two_band_image) ''B2'' = Some (const_band 500)
   \<and> map_of ((''B2'', const_band 500) # two_band_image) ''B4'' = Some (const_band 1000)
   \<and> map_of ((''B2'', const_band 500) # two_band_image) ''B8'' = Some (const_band 5000)
   \<and> compute_index ((''B2'', const_band 500) # two_band_image) ''EVI''
         (cfg ''evi'' [''B8'', ''B4'', ''B2''])
       = Inr (Some (''EVI'',
           Inr (pixelwise3 spec_EVI (const_band 5000) (const_band 1000) (const_band 500))))
   \<and> pixelwise3 spec_EVI (const_band 5000) (const_band 1000) (const_band 500) 0
       = Some (40 / 69)"
proof -
  let ?img = "(''B2'', const_band 500) # two_band_image"
  have f: "formula (cfg ''evi'' [''B8'', ''B4'', ''B2'']) = Some ''evi''"
    by (simp add: cfg_def)
  have b2: "map_of ?img ''B2'' = Some (const_band 500)"
    and b4: "map_of ?img ''B4'' = Some (const_band 1000)"
    and b8: "map_of ?img ''B8'' = Some (const_band 5000)"
    by (simp_all add: two_band_image_def)
  have v: "pixelwise3 spec_EVI (const_band 5000) (const_band 1000) (const_band 500) 0
             = Some (40 / 69)"
    by (simp add: pixelwise3_def spec_EVI_def const_band_def)
  show ?thesis
    using f b2 b4 b8 v compute_index_evi_formula [OF f b2 b4 b8, of "''EVI''"] by blast
qed

text \<open>
  C2. On an image that provides B3, B4, B8 and B11, the IBI branch returns an object
  named as asked that evaluates to the band whose value at every pixel is
  (NDBI - avg(SAVI, MNDWI)) / (NDBI + avg(SAVI, MNDWI)), where NDBI and MNDWI are the
  normalized differences of the raw values of (B11, B8) and (B3, B11), and SAVI is
  computed with L = 0.5 on the values of B8 and B4 divided by 10000.
\<close>

theorem compute_index_ibi_formula:
  assumes "formula c = Some ''ibi''"
    and "map_of img ''B3'' = Some green" and "map_of img ''B4'' = Some red"
    and "map_of img ''B8'' = Some nir" and "map_of img ''B11'' = Some swir1"
  shows "compute_index img name c
           = Inr (Some (name, Inr (pixelwise4 spec_IBI green red nir swir1)))"
proof -
  let ?ndbi = "band_divide (band_subtract swir1 nir) (band_add swir1 nir)"
  let ?mndwi = "band_divide (band_subtract green swir1) (band_add green swir1)"
  let ?nir = "band_divide nir (const_band 10000)"
  let ?red = "band_divide red (const_band 10000)"
  let ?savi = "band_multiply
                 (band_divide (band_subtract ?nir ?red)
                    (band_add (band_add ?nir ?red) (const_band 0.5)))
                 (const_band (1 + 0.5))"
  let ?mean = "band_divide (band_add ?savi ?mndwi) (const_band 2)"
  have "band_divide (band_subtract ?ndbi ?mean) (band_add ?ndbi ?mean)
        = pixelwise4 spec_IBI green red nir swir1" (is "?code = ?spec")
  proof
    fix p
    show "?code p = ?spec p"
      by (cases "green p"; cases "red p"; cases "nir p"; cases "swir1 p")
         (simp_all add: band_divide_def band_multiply_def band_subtract_def band_add_def
            const_band_def pixelwise4_def spec_IBI_def Let_def ee_quotient_divide
            mult.commute)
  qed
  then show ?thesis
    by (simp only: compute_index_ibi [OF assms(1)]
          normalizedDifference_present [OF assms(5) assms(4)]
          normalizedDifference_present [OF assms(2) assms(5)]
          select_present [OF assms(4)] select_present [OF assms(3)] ee_divide_def
          ee_multiply_def ee_subtract_def ee_add_def ee_constant_def deferred_Inr)
qed

theorem compute_index_ibi_formula_witness:
  "formula (cfg ''ibi'' [''B11'', ''B8'', ''B3'', ''B4'']) = Some ''ibi''
   \<and> map_of four_band_image ''B3'' = Some (const_band 800)
   \<and> map_of four_band_image ''B4'' = Some (const_band 1000)
   \<and> map_of four_band_image ''B8'' = Some (const_band 5000)
   \<and> map_of four_band_image ''B11'' = Some (const_band 2000)
   \<and> compute_index four_band_image ''IBI'' (cfg ''ibi'' [''B11'', ''B8'', ''B3'', ''B4''])
       = Inr (Some (''IBI'', Inr (pixelwise4 spec_IBI (const_band 800) (const_band 1000)
                                    (const_band 5000) (const_band 2000))))
   \<and> pixelwise4 spec_IBI (const_band 800) (const_band 1000) (const_band 5000)
         (const_band 2000) 0 = Some (25 / 19)"
proof -
  have f: "formula (cfg ''ibi'' [''B11'', ''B8'', ''B3'', ''B4'']) = Some ''ibi''"
    by (simp add: cfg_def)
  have b3: "map_of four_band_image ''B3'' = Some (const_band 800)"
    and b4: "map_of four_band_image ''B4'' = Some (const_band 1000)"
    and b8: "map_of four_band_image ''B8'' = Some (const_band 5000)"
    and b11: "map_of four_band_image ''B11'' = Some (const_band 2000)"
    by (simp_all add: four_band_image_def)
  have v: "pixelwise4 spec_IBI (const_band 800) (const_band 1000) (const_band 5000)
             (const_band 2000) 0 = Some (25 / 19)"
    by (simp add: pixelwise4_def spec_IBI_def const_band_def Let_def)
  show ?thesis
    using f b3 b4 b8 b11 v compute_index_ibi_formula [OF f b3 b4 b8 b11, of "''IBI''"]
    by blast
qed

subsection \<open>What the compositor stages\<close>

lemma foldl_stage:
  "foldl (\<lambda>acc x. stage acc (f x)) acc xs = acc @ List.map_filter produced (map f xs)"
proof (induction xs arbitrary: acc)
  case Nil
  show ?case by (simp add: List.map_filter_simps)
next
  case (Cons x xs)
  show ?case
    by (cases "f x" rule: produced.cases) (simp_all add: Cons.IH List.map_filter_simps)
qed

lemma map_filter_append:
  "List.map_filter g (xs @ ys) = List.map_filter g xs @ List.map_filter g ys"
  by (simp add: List.map_filter_def)

lemma staged_bands_produced:
  "staged_bands catalog ev img extra = List.map_filter produced (evaluations catalog ev img extra)"
proof -
  have c: "(\<lambda>acc (idx_name, c). stage acc (compute_index img idx_name c))
             = (\<lambda>acc x. stage acc ((\<lambda>(idx_name, c). compute_index img idx_name c) x))"
    by (simp add: fun_eq_iff)
  show ?thesis
    by (cases extra)
       (simp_all add: staged_bands_def evaluations_def Let_def c foldl_stage map_filter_append
          List.map_filter_simps)
qed

lemma staged_bands_skip_catalog:
  assumes "compute_index img name c = Inr None"
  shows "staged_bands (cat1 @ (name, c) # cat2) ev img extra
           = staged_bands (cat1 @ cat2) ev img extra"
  using assms
  by (simp add: staged_bands_produced evaluations_def map_filter_append List.map_filter_simps)

lemma staged_bands_skip_custom:
  assumes "compute_custom_index ev img custom = Inr None"
  shows "staged_bands catalog ev img (Some (cs1 @ custom # cs2))
           = staged_bands catalog ev img (Some (cs1 @ cs2))"
  using assms
  by (simp add: staged_bands_produced evaluations_def map_filter_append List.map_filter_simps)

text \<open>
  C10. A predefined definition whose formula kind is none of normalized_diff, evi, savi,
  bsi, ibi, or is normalized_diff with fewer than two band references, and a user-defined
  definition whose formula kind is none of normalized_diff, ratio, difference,
  expression, evaluates to no band and to no error; the compositor then returns the
  image it returns without that definition. Nothing is logged: the code has no logging.
\<close>

theorem unknown_formula_is_skipped:
  "(get_or (formula c) ''normalized_diff'' \<notin> set predefined_formulas
      \<or> get_or (formula c) ''normalized_diff'' = ''normalized_diff''
        \<and> length (get_or (bands c) []) < 2
    \<longrightarrow> compute_index img name c = Inr None
        \<and> calculate_indices (cat1 @ (name, c) # cat2) ev img extra
            = calculate_indices (cat1 @ cat2) ev img extra)
   \<and> (get_or (c_formula custom) ''normalized_diff'' \<notin> set custom_formulas
    \<longrightarrow> compute_custom_index ev img custom = Inr None
        \<and> calculate_indices catalog ev img (Some (cs1 @ custom # cs2))
            = calculate_indices catalog ev img (Some (cs1 @ cs2)))"
proof (intro conjI impI)
  assume a: "get_or (formula c) ''normalized_diff'' \<notin> set predefined_formulas
      \<or> get_or (formula c) ''normalized_diff'' = ''normalized_diff''
        \<and> length (get_or (bands c) []) < 2"
  show n: "compute_index img name c = Inr None"
    by (rule compute_index_no_band [OF a])
  show "calculate_indices (cat1 @ (name, c) # cat2) ev img extra
          = calculate_indices (cat1 @ cat2) ev img extra"
    by (simp only: calculate_indices_def staged_bands_skip_catalog [OF n])
next
  assume a: "get_or (c_formula custom) ''normalized_diff'' \<notin> set custom_formulas"
  show n: "compute_custom_index ev img custom = Inr None"
    by (rule compute_custom_index_no_band [OF a])
  show "calculate_indices catalog ev img (Some (cs1 @ custom # cs2))
          = calculate_indices catalog ev img (Some (cs1 @ cs2))"
    by (simp only: calculate_indices_def staged_bands_skip_custom [OF n])
qed

theorem unknown_formula_is_skipped_witness:
  "get_or (formula (cfg ''ratio'' [''B8'', ''B4''])) ''normalized_diff'' \<notin> set predefined_formulas
   \<and> compute_index two_band_image ''RATIO'' (cfg ''ratio'' [''B8'', ''B4'']) = Inr None
   \<and> calculate_indices (INDICES_CONFIG @ (''RATIO'', cfg ''ratio'' [''B8'', ''B4'']) # [])
         no_expression two_band_image None
       = calculate_indices (INDICES_CONFIG @ []) no_expression two_band_image None
   \<and> get_or (c_formula unknown_custom) ''normalized_diff'' \<notin> set custom_formulas
   \<and> compute_custom_index no_expression two_band_image unknown_custom = Inr None
   \<and> calculate_indices INDICES_CONFIG no_expression two_band_image
         (Some ([] @ unknown_custom # []))
       = calculate_indices INDICES_CONFIG no_expression two_band_image (Some ([] @ []))"
proof -
  have p: "get_or (formula (cfg ''ratio'' [''B8'', ''B4''])) ''normalized_diff''
             \<notin> set predefined_formulas"
    by (simp add: cfg_def predefined_formulas_def)
  have q: "get_or (c_formula unknown_custom) ''normalized_diff'' \<notin> set custom_formulas"
    by (simp add: unknown_custom_def custom_formulas_def)
  show ?thesis
    using p q
      unknown_formula_is_skipped [of "cfg ''ratio'' [''B8'', ''B4'']" two_band_image "''RATIO''"
        INDICES_CONFIG "[]" no_expression None unknown_custom INDICES_CONFIG "[]" "[]"]
    by blast
qed

subsection \<open>Fresh band names\<close>

lemma undec_dec: "undec (dec n) = n"
proof (induction n rule: dec.induct)
  case (1 n)
  show ?case
  proof (cases "n < 10")
    case True
    then show ?thesis by (simp add: dec.simps [of n] undec_def)
  next
    case False
    with "1.IH" have "undec (dec (n div 10)) = n div 10" by simp
    then have "foldl (\<lambda>a c. 10 * a + (of_char c - 48)) 0 (dec (n div 10)) = n div 10"
      by (simp add: undec_def)
    with False show ?thesis
      by (simp add: dec.simps [of n] undec_def)
  qed
qed

lemma dec_inject: "dec a = dec b \<Longrightarrow> a = b"
  by (metis undec_dec)

lemma suffixed_inject: "suffixed n a = suffixed n b \<Longrightarrow> a = b"
  by (simp add: suffixed_def dec_inject)

lemma fresh_name_unused: "n \<notin> set names \<Longrightarrow> fresh_name names n = n"
  by (simp add: fresh_name_def)

lemma fresh_name_fresh: "fresh_name names n \<notin> set names"
proof (cases "n \<in> set names")
  case False
  then show ?thesis by (simp add: fresh_name_def)
next
  case True
  let ?cands = "map (suffixed n) [1..<length names + 2]"
  have "inj_on (suffixed n) (set [1..<length names + 2])"
    by (rule inj_onI) (rule suffixed_inject)
  then have d: "distinct ?cands" by (simp only: distinct_map distinct_upt simp_thms)
  have "length ?cands = length names + 2 - 1" by (simp only: length_map length_upt)
  then have l: "length ?cands = length names + 1" by simp
  have c: "card (set ?cands) = length names + 1"
    using distinct_card [OF d] l by simp
  have "\<exists>c \<in> set ?cands. c \<notin> set names"
  proof (rule ccontr)
    assume "\<not> ?thesis"
    then have "set ?cands \<subseteq> set names" by blast
    then have "card (set ?cands) \<le> card (set names)" by (simp add: card_mono)
    also have "\<dots> \<le> length names" by (rule card_length)
    finally show False using c by simp
  qed
  then have "find (\<lambda>c. c \<notin> set names) ?cands \<noteq> None"
    by (simp only: find_None_iff not_not) blast
  then obtain c where f: "find (\<lambda>c. c \<notin> set names) ?cands = Some c" by blast
  then have "c \<notin> set names" by (auto simp: find_Some_iff)
  with True f show ?thesis by (simp add: fresh_name_def)
qed

subsection \<open>Adding bands never overwrites\<close>

lemma added_bands_Nil [simp]: "added_bands dst [] = []"
  by (simp add: added_bands_def addBands_def)

lemma addBands_snoc:
  "addBands dst (src @ [x]) =
     addBands dst src @ [(fresh_name (map fst (addBands dst src)) (fst x), snd x)]"
  by (simp add: addBands_def add_band_def)

lemma length_addBands: "length (addBands dst src) = length dst + length src"
  by (induction src rule: rev_induct) (simp_all add: addBands_snoc, simp add: addBands_def)

lemma addBands_append: "addBands dst src = dst @ added_bands dst src"
proof (induction src rule: rev_induct)
  case Nil
  show ?case by (simp add: addBands_def)
next
  case (snoc x src)
  have "length dst \<le> length (addBands dst src)" by (simp add: length_addBands)
  then have "added_bands dst (src @ [x]) =
      added_bands dst src @ [(fresh_name (map fst (addBands dst src)) (fst x), snd x)]"
    by (simp add: added_bands_def addBands_snoc)
  with snoc.IH show ?case by (simp add: addBands_snoc)
qed

lemma added_bands_snoc:
  "added_bands dst (src @ [x]) =
     added_bands dst src
     @ [(fresh_name (map fst (dst @ added_bands dst src)) (fst x), snd x)]"
proof -
  have "length dst \<le> length (addBands dst src)" by (simp add: length_addBands)
  then have "added_bands dst (src @ [x]) =
      added_bands dst src @ [(fresh_name (map fst (addBands dst src)) (fst x), snd x)]"
    by (simp add: added_bands_def addBands_snoc)
  then show ?thesis by (simp only: addBands_append [symmetric])
qed

lemma length_added_bands [simp]: "length (added_bands dst src) = length src"
  by (simp add: added_bands_def length_addBands)

lemma map_snd_added_bands: "map snd (added_bands dst src) = map snd src"
  by (induction src rule: rev_induct) (simp_all add: added_bands_snoc)

lemma distinct_added_bands:
  "distinct (map fst dst) \<Longrightarrow> distinct (map fst (dst @ added_bands dst src))"
proof (induction src rule: rev_induct)
  case Nil
  then show ?case by simp
next
  case (snoc x src)
  let ?names = "map fst (dst @ added_bands dst src)"
  have "fresh_name ?names (fst x) \<notin> set ?names" by (rule fresh_name_fresh)
  moreover from snoc have "distinct ?names" by simp
  ultimately show ?case by (simp add: added_bands_snoc)
qed

lemma added_bands_no_collision:
  "distinct (map fst (dst @ src)) \<Longrightarrow> added_bands dst src = src"
proof (induction src rule: rev_induct)
  case Nil
  show ?case by simp
next
  case (snoc x src)
  then have a: "added_bands dst src = src" by simp
  from snoc.prems have "fst x \<notin> set (map fst (dst @ src))" by auto
  then have "fresh_name (map fst (dst @ src)) (fst x) = fst x" by (rule fresh_name_unused)
  then show ?case by (simp add: added_bands_snoc a)
qed

lemma added_bands_names:
  "i < length src \<Longrightarrow>
   fst (added_bands dst src ! i) = fst (src ! i)
   \<or> fst (src ! i) \<in> set (map fst (dst @ take i (added_bands dst src)))"
proof (induction src rule: rev_induct)
  case Nil
  then show ?case by simp
next
  case (snoc x src)
  let ?added = "added_bands dst src"
  let ?nm = "fresh_name (map fst (dst @ ?added)) (fst x)"
  show ?case
  proof (cases "i < length src")
    case True
    with snoc.IH show ?thesis by (simp add: added_bands_snoc nth_append)
  next
    case False
    with snoc.prems have i: "i = length src" by simp
    have "?nm = fst x \<or> fst x \<in> set (map fst (dst @ ?added))"
      by (cases "fst x \<in> set (map fst (dst @ ?added))") (simp_all add: fresh_name_unused)
    with i show ?thesis by (simp add: added_bands_snoc nth_append)
  qed
qed

lemma fresh_name_numbered: "\<exists>k. fresh_name names n = numbered n k"
proof (cases "find (\<lambda>c. c \<notin> set names) (map (suffixed n) [1..<length names + 2])")
  case None
  then have "fresh_name names n = numbered n 0" by (simp add: fresh_name_def numbered_def)
  then show ?thesis ..
next
  case (Some c)
  then obtain i where l: "i < length (map (suffixed n) [1..<length names + 2])"
    and m: "c = map (suffixed n) [1..<length names + 2] ! i"
    unfolding find_Some_iff by blast
  from l have il: "i < length [1..<length names + 2]" by (simp only: length_map)
  then have "i < length names + 2 - 1" by (simp only: length_upt)
  then have "1 + i < length names + 2" by arith
  then have "[1..<length names + 2] ! i = 1 + i" by (rule nth_upt)
  with m il have c: "c = suffixed n (1 + i)" by (simp only: nth_map)
  show ?thesis
  proof (cases "n \<in> set names")
    case True
    with Some c have "fresh_name names n = numbered n (1 + i)"
      by (simp add: fresh_name_def numbered_def)
    then show ?thesis ..
  next
    case False
    then have "fresh_name names n = numbered n 0" by (simp add: fresh_name_def numbered_def)
    then show ?thesis ..
  qed
qed

lemma added_bands_numbered:
  "i < length src \<Longrightarrow> \<exists>k. fst (added_bands dst src ! i) = numbered (fst (src ! i)) k"
proof (induction src rule: rev_induct)
  case Nil
  then show ?case by simp
next
  case (snoc x src)
  show ?case
  proof (cases "i < length src")
    case True
    with snoc.IH show ?thesis by (simp add: added_bands_snoc nth_append)
  next
    case False
    with snoc.prems have i: "i = length src" by simp
    from fresh_name_numbered [of "map fst (dst @ added_bands dst src)" "fst x"] i
    show ?thesis by (simp add: added_bands_snoc nth_append)
  qed
qed

lemma combine_added: "combine bs = added_bands [] bs"
  by (simp add: combine_def added_bands_def addBands_def)

subsection \<open>What the returned object evaluates to\<close>

lemma evaluated_names: "evaluated xs = Inr bs \<Longrightarrow> map fst bs = map fst xs"
proof (induction xs arbitrary: bs)
  case Nil
  then show ?case by simp
next
  case (Cons x xs)
  obtain n r where x: "x = (n, r)" by (cases x)
  from Cons.prems x obtain b where r: "r = Inr b"
    by (cases r) simp_all
  from Cons.prems x r obtain bs' where e: "evaluated xs = Inr bs'"
    by (cases "evaluated xs") simp_all
  from Cons.prems x r e have "bs = (n, b) # bs'" by simp
  with Cons.IH [OF e] x show ?case by simp
qed

lemma evaluated_fails:
  "(n, Inl e) \<in> set xs \<Longrightarrow> \<exists>e'. evaluated xs = Inl e'"
proof (induction xs)
  case Nil
  then show ?case by simp
next
  case (Cons x xs)
  obtain m r where x: "x = (m, r)" by (cases x)
  show ?case
  proof (cases r)
    case (Inl e')
    with x show ?thesis by simp
  next
    case (Inr b)
    with Cons x obtain e' where "evaluated xs = Inl e'" by auto
    with x Inr show ?thesis by simp
  qed
qed

lemma calculate_indices_derived:
  assumes "evaluated (staged_bands catalog ev img extra) = Inr bs"
  shows "calculate_indices catalog ev img extra = Inr (img @ derived_bands img bs)"
proof (cases "staged_bands catalog ev img extra = []")
  case True
  with assms have "bs = []" by simp
  with True show ?thesis
    by (simp add: calculate_indices_def derived_bands_def combine_added)
next
  case False
  with assms show ?thesis
    by (simp add: calculate_indices_def derived_bands_def Let_def addBands_append)
qed

lemma calculate_indices_fails:
  assumes "evaluated (staged_bands catalog ev img extra) = Inl e"
  shows "calculate_indices catalog ev img extra = Inl e"
proof -
  from assms have "staged_bands catalog ev img extra \<noteq> []" by auto
  with assms show ?thesis by (simp add: calculate_indices_def Let_def)
qed

lemma map_snd_derived_bands: "map snd (derived_bands img bs) = map snd bs"
  by (simp add: derived_bands_def combine_added map_snd_added_bands)

lemma distinct_derived_bands:
  "distinct (map fst img) \<Longrightarrow> distinct (map fst (img @ derived_bands img bs))"
  unfolding derived_bands_def by (rule distinct_added_bands)

lemma derived_bands_names:
  assumes "i < length bs"
  shows "fst (derived_bands img bs ! i) = fst (bs ! i)
         \<or> fst (bs ! i) \<in> set (map fst (img @ take i (derived_bands img bs)))"
proof -
  let ?comb = "added_bands [] bs"
  let ?derived = "added_bands img ?comb"
  let ?s = "fst (bs ! i)"
  have d: "derived_bands img bs = ?derived"
    by (simp add: derived_bands_def combine_added)
  have second: "fst (?derived ! j) = fst (?comb ! j)
                \<or> fst (?comb ! j) \<in> set (map fst (img @ take j ?derived))"
    if "j < length bs" for j
    using that added_bands_names [of j ?comb img] by simp
  from assms added_bands_names [of i bs "[]"]
  consider (kept) "fst (?comb ! i) = ?s" | (taken) "?s \<in> set (map fst (take i ?comb))"
    by auto
  then have "fst (?derived ! i) = ?s \<or> ?s \<in> set (map fst (img @ take i ?derived))"
  proof cases
    case kept
    with second [OF assms] show ?thesis by simp
  next
    case taken
    then obtain j where j: "j < i" "fst (?comb ! j) = ?s"
      using assms by (auto simp: in_set_conv_nth)
    with assms have jl: "j < length bs" by simp
    from second [OF jl] j(2)
    consider "fst (?derived ! j) = ?s" | "?s \<in> set (map fst (img @ take j ?derived))"
      by auto
    then show ?thesis
    proof cases
      case 1
      from j(1) jl assms have "take i ?derived ! j = ?derived ! j" by simp
      moreover from j(1) assms have "j < length (take i ?derived)" by simp
      ultimately have "?derived ! j \<in> set (take i ?derived)"
        by (metis nth_mem)
      then have "fst (?derived ! j) \<in> fst ` set (take i ?derived)"
        by (rule imageI)
      with 1 show ?thesis by simp
    next
      case 2
      from j(1) have "set (take j ?derived) \<subseteq> set (take i ?derived)"
        by (simp add: set_take_subset_set_take)
      then have "set (map fst (img @ take j ?derived)) \<subseteq> set (map fst (img @ take i ?derived))"
        by auto
      with 2 show ?thesis by blast
    qed
  qed
  with d show ?thesis by simp
qed

lemma derived_bands_numbered:
  assumes "i < length bs"
  shows "\<exists>j k. fst (derived_bands img bs ! i) = numbered (numbered (fst (bs ! i)) j) k"
proof -
  from assms obtain j where j: "fst (added_bands [] bs ! i) = numbered (fst (bs ! i)) j"
    using added_bands_numbered [of i bs "[]"] by blast
  from assms obtain k
    where "fst (added_bands img (added_bands [] bs) ! i) = numbered (fst (added_bands [] bs ! i)) k"
    using added_bands_numbered [of i "added_bands [] bs" img] by auto
  with j have "fst (derived_bands img bs ! i) = numbered (numbered (fst (bs ! i)) j) k"
    by (simp add: derived_bands_def combine_added)
  then show ?thesis by blast
qed

subsection \<open>Division by zero and the region statistics\<close>

lemma band_divide_zero: "x p = Some u \<Longrightarrow> y p = Some 0 \<Longrightarrow> band_divide x y p = Some 0"
  by (simp add: band_divide_def ee_quotient_def)

lemma compute_custom_index_ratio:
  assumes "c_formula custom = Some ''ratio''"
    and "band_a custom = Some a" and "band_b custom = Some b"
    and "map_of img a = Some x" and "map_of img b = Some y"
  shows "compute_custom_index ev img custom
           = Inr (Some (get_or (c_name custom) ''CUSTOM'', Inr (band_divide x y)))"
  using assms
  by (simp add: compute_custom_index_def Let_def lookup_def rename_def ee_divide_def
        select_present)

lemma map_filter_all_Some:
  "\<forall>q \<in> set g. r q = Some c \<Longrightarrow> List.map_filter r g = replicate (length g) c"
  by (induction g) (simp_all add: List.map_filter_simps)

lemma map_filter_all_None: "(List.map_filter r g = []) = (\<forall>q \<in> set g. r q = None)"
  by (induction g) (auto simp: List.map_filter_simps split: option.splits)

lemma fold_min_replicate: "fold min (replicate k c) (c :: real) = c"
  by (induction k) simp_all

lemma fold_max_replicate: "fold max (replicate k c) (c :: real) = c"
  by (induction k) simp_all

lemma reducers_zero:
  assumes "0 < n"
  shows "mean_reducer (replicate n 0) = Some 0" and "stdDev_reducer (replicate n 0) = Some 0"
    and "min_reducer (replicate n 0) = Some 0" and "max_reducer (replicate n 0) = Some 0"
proof -
  from assms have ne: "replicate n (0 :: real) \<noteq> []" by simp
  from ne show "mean_reducer (replicate n 0) = Some 0"
    by (simp add: mean_reducer_def sum_list_replicate)
  from ne show "stdDev_reducer (replicate n 0) = Some 0"
    by (simp add: stdDev_reducer_def Let_def sum_list_replicate)
  from assms have t: "tl (replicate n (0 :: real)) = replicate (n - 1) 0"
    and h: "hd (replicate n (0 :: real)) = 0"
    by (simp_all add: tl_replicate)
  from ne show "min_reducer (replicate n 0) = Some 0"
    by (simp only: min_reducer_def t h fold_min_replicate if_False)
  from ne show "max_reducer (replicate n 0) = Some 0"
    by (simp only: max_reducer_def t h fold_max_replicate if_False)
qed

lemma reduceRegion_zero:
  assumes "geometry \<noteq> []" and "\<forall>q \<in> set geometry. r q = Some 0"
  shows "reduceRegion r geometry name =
           [(name @ ''_mean'', Some 0), (name @ ''_stdDev'', Some 0),
            (name @ ''_min'', Some 0), (name @ ''_max'', Some 0)]"
proof -
  from assms(1) have "0 < length geometry" by simp
  then show ?thesis
    by (simp only: reduceRegion_def Let_def map_filter_all_Some [OF assms(2)] reducers_zero)
qed

lemma reduceRegion_absent:
  "(reduceRegion r geometry name =
      [(name @ ''_mean'', None), (name @ ''_stdDev'', None),
       (name @ ''_min'', None), (name @ ''_max'', None)])
   = (\<forall>q \<in> set geometry. r q = None)"
proof (cases "List.map_filter r geometry = []")
  case True
  then have "reduceRegion r geometry name =
      [(name @ ''_mean'', None), (name @ ''_stdDev'', None),
       (name @ ''_min'', None), (name @ ''_max'', None)]"
    by (simp add: reduceRegion_def mean_reducer_def stdDev_reducer_def min_reducer_def
          max_reducer_def)
  moreover from True map_filter_all_None [of r geometry]
  have "\<forall>q \<in> set geometry. r q = None" by blast
  ultimately show ?thesis by blast
next
  case False
  then have "mean_reducer (List.map_filter r geometry) \<noteq> None"
    by (simp add: mean_reducer_def)
  then have "reduceRegion r geometry name \<noteq>
      [(name @ ''_mean'', None), (name @ ''_stdDev'', None),
       (name @ ''_min'', None), (name @ ''_max'', None)]"
    by (simp add: reduceRegion_def Let_def)
  moreover from False map_filter_all_None [of r geometry]
  have "\<not> (\<forall>q \<in> set geometry. r q = None)" by blast
  ultimately show ?thesis by blast
qed

lemma calculate_statistics_present:
  assumes "map_of res index = Some r" and "length geometry \<le> maxPixels"
  shows "calculate_statistics (Inr res) geometry index = Inr (reduceRegion r geometry index)"
  using assms by (simp add: calculate_statistics_def select_present)

lemma value_at_Inr:
  assumes "value_at im index q = Inr v"
  obtains res r where "im = Inr res" and "map_of res index = Some r" and "r q = v"
proof -
  from assms obtain res where i: "im = Inr res"
    by (cases im) (simp_all add: value_at_def)
  with assms obtain r where s: "select res index = Inr r"
    by (cases "select res index") (simp_all add: value_at_def)
  then have m: "map_of res index = Some r"
    by (cases "map_of res index") (simp_all add: select_def)
  from assms i s have "r q = v" by (simp add: value_at_def)
  with i m that show ?thesis by blast
qed

lemma calculate_statistics_zero_values:
  assumes "geometry \<noteq> []" and "length geometry \<le> maxPixels"
    and "\<forall>q \<in> set geometry. value_at im index q = Inr (Some 0)"
  shows "calculate_statistics im geometry index =
           Inr [(index @ ''_mean'', Some 0), (index @ ''_stdDev'', Some 0),
                (index @ ''_min'', Some 0), (index @ ''_max'', Some 0)]"
proof -
  from assms(1) obtain q0 where "q0 \<in> set geometry" by (cases geometry) auto
  with assms(3) have "value_at im index q0 = Inr (Some 0)" by blast
  then obtain res r where i: "im = Inr res" and m: "map_of res index = Some r"
    by (rule value_at_Inr)
  have "\<forall>q \<in> set geometry. r q = Some 0"
  proof
    fix q
    assume "q \<in> set geometry"
    with assms(3) have "value_at im index q = Inr (Some 0)" by blast
    with i m show "r q = Some 0" by (simp add: value_at_def select_present)
  qed
  with assms(1) have "reduceRegion r geometry index =
      [(index @ ''_mean'', Some 0), (index @ ''_stdDev'', Some 0),
       (index @ ''_min'', Some 0), (index @ ''_max'', Some 0)]"
    by (rule reduceRegion_zero)
  with i show ?thesis by (simp only: calculate_statistics_present [OF m assms(2)])
qed

lemma pixel_values_Inl: "pixel_values r p = Inl e \<Longrightarrow> r = Inl e"
  by (cases r) (simp_all add: pixel_values_def)

lemma calculate_statistics_Inl [simp]: "calculate_statistics (Inl e) geometry index = Inl e"
  by (simp add: calculate_statistics_def)

text \<open>
  C3, as the code has it. A zero denominator raises nothing and does not leave the pixel
  without a value: \<^verbatim>\<open>divide\<close> returns 0 for division by 0. The ratio of a user-defined
  index evaluates to the quotient band of its two bands, which is 0 at a pixel where the
  second band is 0, and EVI is 0 at a pixel where its denominator is 0. The statistics of
  a band over a region whose pixels all carry such a 0 are 0 for the mean, the standard
  deviation, the minimum and the maximum. All four are absent exactly when every pixel
  of the region is masked.
\<close>

theorem zero_denominator_gives_zero:
  "(c_formula custom = Some ''ratio'' \<and> band_a custom = Some a \<and> band_b custom = Some b
      \<and> map_of img a = Some x \<and> map_of img b = Some y
    \<longrightarrow> compute_custom_index ev img custom
          = Inr (Some (get_or (c_name custom) ''CUSTOM'', Inr (band_divide x y))))
   \<and> (x p = Some u \<and> y p = Some 0 \<longrightarrow> band_divide x y p = Some 0)
   \<and> (formula c = Some ''evi'' \<and> map_of img ''B2'' = Some blue \<and> map_of img ''B4'' = Some red
      \<and> map_of img ''B8'' = Some nir \<and> nir p = Some n \<and> red p = Some r \<and> blue p = Some bl
      \<and> n / 10000 + 6 * (r / 10000) - 7.5 * (bl / 10000) + 1 = 0
    \<longrightarrow> (\<exists>e. compute_index img name c = Inr (Some (name, Inr e)) \<and> e p = Some 0))
   \<and> (map_of res index = Some v \<and> geometry \<noteq> [] \<and> length geometry \<le> maxPixels
      \<and> (\<forall>q \<in> set geometry. v q = Some 0)
    \<longrightarrow> calculate_statistics (Inr res) geometry index
          = Inr [(index @ ''_mean'', Some 0), (index @ ''_stdDev'', Some 0),
                 (index @ ''_min'', Some 0), (index @ ''_max'', Some 0)])
   \<and> (map_of res index = Some v \<and> length geometry \<le> maxPixels
    \<longrightarrow> (calculate_statistics (Inr res) geometry index
           = Inr [(index @ ''_mean'', None), (index @ ''_stdDev'', None),
                  (index @ ''_min'', None), (index @ ''_max'', None)])
        = (\<forall>q \<in> set geometry. v q = None))"
proof (intro conjI impI; (elim conjE)?)
  assume "c_formula custom = Some ''ratio''" "band_a custom = Some a" "band_b custom = Some b"
    "map_of img a = Some x" "map_of img b = Some y"
  then show "compute_custom_index ev img custom
      = Inr (Some (get_or (c_name custom) ''CUSTOM'', Inr (band_divide x y)))"
    by (rule compute_custom_index_ratio)
next
  assume "x p = Some u" "y p = Some 0"
  then show "band_divide x y p = Some 0" by (rule band_divide_zero)
next
  assume f: "formula c = Some ''evi''"
    and b: "map_of img ''B2'' = Some blue" "map_of img ''B4'' = Some red"
      "map_of img ''B8'' = Some nir"
    and v: "nir p = Some n" "red p = Some r" "blue p = Some bl"
    and d: "n / 10000 + 6 * (r / 10000) - 7.5 * (bl / 10000) + 1 = 0"
  have "compute_index img name c =
          Inr (Some (name, Inr
            (band_divide
               (band_multiply
                  (band_subtract (band_divide nir (const_band 10000))
                     (band_divide red (const_band 10000)))
                  (const_band 2.5))
               (band_add
                  (band_subtract
                     (band_add (band_divide nir (const_band 10000))
                        (band_multiply (band_divide red (const_band 10000)) (const_band 6)))
                     (band_multiply (band_divide blue (const_band 10000)) (const_band 7.5)))
                  (const_band 1)))))"
    by (simp only: compute_index_evi [OF f] select_present [OF b(1)]
          select_present [OF b(2)] select_present [OF b(3)] ee_divide_def
          ee_multiply_def ee_subtract_def ee_add_def ee_constant_def deferred_Inr)
  then have e: "compute_index img name c
                  = Inr (Some (name, Inr (pixelwise3 spec_EVI nir red blue)))"
    by (simp only: evi_raster)
  from d have "spec_EVI n r bl = 0" by (simp add: spec_EVI_def Let_def)
  with v have "pixelwise3 spec_EVI nir red blue p = Some 0" by (simp add: pixelwise3_def)
  with e show "\<exists>e. compute_index img name c = Inr (Some (name, Inr e)) \<and> e p = Some 0"
    by blast
next
  assume m: "map_of res index = Some v" and g: "geometry \<noteq> []"
    and l: "length geometry \<le> maxPixels" and z: "\<forall>q \<in> set geometry. v q = Some 0"
  show "calculate_statistics (Inr res) geometry index
          = Inr [(index @ ''_mean'', Some 0), (index @ ''_stdDev'', Some 0),
                 (index @ ''_min'', Some 0), (index @ ''_max'', Some 0)]"
    by (simp only: calculate_statistics_present [OF m l] reduceRegion_zero [OF g z])
next
  assume m: "map_of res index = Some v" and l: "length geometry \<le> maxPixels"
  show "(calculate_statistics (Inr res) geometry index
           = Inr [(index @ ''_mean'', None), (index @ ''_stdDev'', None),
                  (index @ ''_min'', None), (index @ ''_max'', None)])
        = (\<forall>q \<in> set geometry. v q = None)"
    by (simp only: calculate_statistics_present [OF m l] sum.inject reduceRegion_absent)
qed

theorem zero_denominator_gives_zero_witness:
  "compute_custom_index variable_expression dark_image (ratio_custom ''B6'' ''B7'')
     = Inr (Some (''RATIO'', Inr (band_divide (const_band 0) (const_band 0))))
   \<and> band_divide (const_band 0) (const_band 0) 0 = Some 0
   \<and> (\<exists>e. compute_index evi_zero_image ''EVI'' (cfg ''evi'' [''B8'', ''B4'', ''B2''])
            = Inr (Some (''EVI'', Inr e)) \<and> e 0 = Some 0)
   \<and> calculate_statistics (Inr [(''RATIO'', band_divide (const_band 0) (const_band 0))])
        [0, 1, 2] ''RATIO''
       = Inr [(''RATIO_mean'', Some 0), (''RATIO_stdDev'', Some 0),
              (''RATIO_min'', Some 0), (''RATIO_max'', Some 0)]
   \<and> calculate_statistics (Inr masked_image) [0, 1, 2] ''RATIO''
       = Inr [(''RATIO_mean'', None), (''RATIO_stdDev'', None),
              (''RATIO_min'', None), (''RATIO_max'', None)]"
proof -
  let ?zero = "const_band 0"
  let ?q = "band_divide ?zero ?zero"
  note t = zero_denominator_gives_zero
    [of "ratio_custom ''B6'' ''B7''" "''B6''" "''B7''" dark_image ?zero ?zero
        variable_expression 0 0 "cfg ''evi'' [''B8'', ''B4'', ''B2'']"
        "const_band 2000" "const_band 0" "const_band 5000" 5000 0 2000 "''EVI''"
        "[(''RATIO'', ?q)]" "''RATIO''" ?q "[0, 1, 2]"]
  have c: "c_formula (ratio_custom ''B6'' ''B7'') = Some ''ratio''"
    "band_a (ratio_custom ''B6'' ''B7'') = Some ''B6''"
    "band_b (ratio_custom ''B6'' ''B7'') = Some ''B7''"
    "get_or (c_name (ratio_custom ''B6'' ''B7'')) ''CUSTOM'' = ''RATIO''"
    by (simp_all add: ratio_custom_def)
  have i: "map_of dark_image ''B6'' = Some ?zero" "map_of dark_image ''B7'' = Some ?zero"
    by (simp_all add: dark_image_def full_image_def)
  have z: "?zero 0 = Some 0" by (simp add: const_band_def)
  from t c i have r: "compute_custom_index variable_expression dark_image
      (ratio_custom ''B6'' ''B7'') = Inr (Some (''RATIO'', Inr ?q))"
    by simp
  from t z have q0: "?q 0 = Some 0" by blast
  have f: "formula (cfg ''evi'' [''B8'', ''B4'', ''B2'']) = Some ''evi''"
    by (simp add: cfg_def)
  have b: "map_of evi_zero_image ''B2'' = Some (const_band 2000)"
    "map_of evi_zero_image ''B4'' = Some (const_band 0)"
    "map_of evi_zero_image ''B8'' = Some (const_band 5000)"
    by (simp_all add: evi_zero_image_def)
  have v: "const_band 5000 0 = Some 5000" "const_band 0 0 = Some 0"
    "const_band 2000 0 = Some 2000"
    by (simp_all add: const_band_def)
  have d: "(5000 :: real) / 10000 + 6 * (0 / 10000) - 7.5 * (2000 / 10000) + 1 = 0" by simp
  note t' = zero_denominator_gives_zero
    [of "ratio_custom ''B6'' ''B7''" "''B6''" "''B7''" evi_zero_image ?zero ?zero
        variable_expression 0 0 "cfg ''evi'' [''B8'', ''B4'', ''B2'']"
        "const_band 2000" "const_band 0" "const_band 5000" 5000 0 2000 "''EVI''"
        masked_image "''RATIO''" "\<lambda>p. None" "[0, 1, 2]"]
  from t' f b v d
  have e: "\<exists>e. compute_index evi_zero_image ''EVI'' (cfg ''evi'' [''B8'', ''B4'', ''B2''])
             = Inr (Some (''EVI'', Inr e)) \<and> e 0 = Some 0"
    by blast
  have m: "map_of [(''RATIO'', ?q)] ''RATIO'' = Some ?q" by simp
  have g: "[0, 1, 2 :: nat] \<noteq> []" "length [0, 1, 2 :: nat] \<le> maxPixels"
    by (simp_all add: maxPixels_def)
  have a: "\<forall>q \<in> set [0, 1, 2 :: nat]. ?q q = Some 0"
    by (simp add: band_divide_def const_band_def ee_quotient_def)
  from t m g a
  have s: "calculate_statistics (Inr [(''RATIO'', ?q)]) [0, 1, 2] ''RATIO''
             = Inr [(''RATIO_mean'', Some 0), (''RATIO_stdDev'', Some 0),
                    (''RATIO_min'', Some 0), (''RATIO_max'', Some 0)]"
    by simp
  have m': "map_of masked_image ''RATIO'' = Some (\<lambda>p. None)" by (simp add: masked_image_def)
  have a': "\<forall>q \<in> set [0, 1, 2 :: nat]. (\<lambda>p. None :: real option) q = None" by simp
  from t' m' g(2) a'
  have n: "calculate_statistics (Inr masked_image) [0, 1, 2] ''RATIO''
             = Inr [(''RATIO_mean'', None), (''RATIO_stdDev'', None),
                    (''RATIO_min'', None), (''RATIO_max'', None)]"
    by simp
  from r q0 e s n show ?thesis by blast
qed

text \<open>
  The claim as stated fails where both bands of a ratio are zero: the pixel carries 0,
  not an undefined value, and the statistics over such pixels are 0, not absent.
\<close>

theorem zero_ratio_counterexample:
  "value_at (calculate_indices INDICES_CONFIG variable_expression dark_image
      (Some [ratio_custom ''B6'' ''B7''])) ''RATIO'' 0 = Inr (Some 0)
   \<and> calculate_statistics (calculate_indices INDICES_CONFIG variable_expression dark_image
        (Some [ratio_custom ''B6'' ''B7''])) [0, 1, 2] ''RATIO''
       = Inr [(''RATIO_mean'', Some 0), (''RATIO_stdDev'', Some 0),
              (''RATIO_min'', Some 0), (''RATIO_max'', Some 0)]"
proof -
  let ?im = "calculate_indices INDICES_CONFIG variable_expression dark_image
      (Some [ratio_custom ''B6'' ''B7''])"
  have v0: "value_at ?im ''RATIO'' 0 = Inr (Some 0)" by code_simp
  have v1: "value_at ?im ''RATIO'' 1 = Inr (Some 0)" by code_simp
  have v2: "value_at ?im ''RATIO'' 2 = Inr (Some 0)" by code_simp
  from v0 v1 v2 have a: "\<forall>q \<in> set [0, 1, 2]. value_at ?im ''RATIO'' q = Inr (Some 0)"
    by simp
  have g: "[0, 1, 2 :: nat] \<noteq> []" "length [0, 1, 2 :: nat] \<le> maxPixels"
    by (simp_all add: maxPixels_def)
  from calculate_statistics_zero_values [OF g a] v0 show ?thesis by simp
qed

subsection \<open>The compositor\<close>

text \<open>
  C1. \<^verbatim>\<open>calculate_indices\<close> raises nothing, but its handlers catch only what is raised at
  the call, and a definition that refers to a band the image does not have, or to an
  expression variable that is not bound, raises nothing there: its object is staged
  like every other, after all fourteen of the catalog, and the image that is returned
  cannot be evaluated, so that no band of it is available: also the statistics of NDVI,
  whose bands the image has, fail. Without the definition, or with the variable bound,
  the image evaluates to the bands of the input and the derived bands. On an image of
  two bands the fourteen objects of the catalog are staged as well.
\<close>

theorem failing_index_fails_the_image:
  "map fst (staged_bands INDICES_CONFIG variable_expression full_image
      (Some [missing_band_custom]))
     = [''NDVI'', ''EVI'', ''SAVI'', ''NDRE'', ''NDBI'', ''UI'', ''IBI'', ''NDMI'', ''NDWI'',
        ''MNDWI'', ''BSI'', ''RI'', ''NBR'', ''BAI'', ''RATIO'']
   \<and> calculate_indices INDICES_CONFIG variable_expression full_image
        (Some [missing_band_custom]) = Inl (UnavailableBand ''B1'')
   \<and> calculate_statistics (calculate_indices INDICES_CONFIG variable_expression full_image
        (Some [missing_band_custom])) [0, 1] ''NDVI'' = Inl (UnavailableBand ''B1'')
   \<and> calculate_indices INDICES_CONFIG variable_expression full_image (Some [unbound_custom])
       = Inl MalformedExpression
   \<and> band_names (calculate_indices INDICES_CONFIG variable_expression full_image
        (Some [bound_custom]))
       = Inr [''B2'', ''B3'', ''B4'', ''B5'', ''B8'', ''B8A'', ''B11'', ''B12'',
              ''NDVI'', ''EVI'', ''SAVI'', ''NDRE'', ''NDBI'', ''UI'', ''IBI'', ''NDMI'',
              ''NDWI'', ''MNDWI'', ''BSI'', ''RI'', ''NBR'', ''BAI'', ''EXPR'']
   \<and> band_names (calculate_indices INDICES_CONFIG variable_expression full_image None)
       = Inr [''B2'', ''B3'', ''B4'', ''B5'', ''B8'', ''B8A'', ''B11'', ''B12'',
              ''NDVI'', ''EVI'', ''SAVI'', ''NDRE'', ''NDBI'', ''UI'', ''IBI'', ''NDMI'',
              ''NDWI'', ''MNDWI'', ''BSI'', ''RI'', ''NBR'', ''BAI'']
   \<and> map fst (staged_bands INDICES_CONFIG variable_expression two_band_image None)
       = [''NDVI'', ''EVI'', ''SAVI'', ''NDRE'', ''NDBI'', ''UI'', ''IBI'', ''NDMI'', ''NDWI'',
          ''MNDWI'', ''BSI'', ''RI'', ''NBR'', ''BAI'']"
proof -
  let ?missing = "calculate_indices INDICES_CONFIG variable_expression full_image
      (Some [missing_band_custom])"
  let ?unbound = "calculate_indices INDICES_CONFIG variable_expression full_image
      (Some [unbound_custom])"
  have s: "map fst (staged_bands INDICES_CONFIG variable_expression full_image
      (Some [missing_band_custom]))
     = [''NDVI'', ''EVI'', ''SAVI'', ''NDRE'', ''NDBI'', ''UI'', ''IBI'', ''NDMI'', ''NDWI'',
        ''MNDWI'', ''BSI'', ''RI'', ''NBR'', ''BAI'', ''RATIO'']"
    by code_simp
  have "pixel_values ?missing 0 = Inl (UnavailableBand ''B1'')" by code_simp
  then have m: "?missing = Inl (UnavailableBand ''B1'')" by (rule pixel_values_Inl)
  then have c: "calculate_statistics ?missing [0, 1] ''NDVI'' = Inl (UnavailableBand ''B1'')"
    by (simp only: calculate_statistics_Inl)
  have "pixel_values ?unbound 0 = Inl MalformedExpression" by code_simp
  then have u: "?unbound = Inl MalformedExpression" by (rule pixel_values_Inl)
  have b: "band_names (calculate_indices INDICES_CONFIG variable_expression full_image
        (Some [bound_custom]))
       = Inr [''B2'', ''B3'', ''B4'', ''B5'', ''B8'', ''B8A'', ''B11'', ''B12'',
              ''NDVI'', ''EVI'', ''SAVI'', ''NDRE'', ''NDBI'', ''UI'', ''IBI'', ''NDMI'',
              ''NDWI'', ''MNDWI'', ''BSI'', ''RI'', ''NBR'', ''BAI'', ''EXPR'']"
    by code_simp
  have n: "band_names (calculate_indices INDICES_CONFIG variable_expression full_image None)
       = Inr [''B2'', ''B3'', ''B4'', ''B5'', ''B8'', ''B8A'', ''B11'', ''B12'',
              ''NDVI'', ''EVI'', ''SAVI'', ''NDRE'', ''NDBI'', ''UI'', ''IBI'', ''NDMI'',
              ''NDWI'', ''MNDWI'', ''BSI'', ''RI'', ''NBR'', ''BAI'']"
    by code_simp
  have t: "map fst (staged_bands INDICES_CONFIG variable_expression two_band_image None)
       = [''NDVI'', ''EVI'', ''SAVI'', ''NDRE'', ''NDBI'', ''UI'', ''IBI'', ''NDMI'', ''NDWI'',
          ''MNDWI'', ''BSI'', ''RI'', ''NBR'', ''BAI'']"
    by code_simp
  from s m c u b n t show ?thesis by blast
qed

text \<open>
  C4, as the code has it. \<^verbatim>\<open>addBands\<close> is called without \<^verbatim>\<open>overwrite\<close>, so a name
  that is already taken is never reassigned. When the staged objects evaluate, to the
  bands \<open>bs\<close> under the names they were staged with, the bands of the input image stay
  in place with their names and pixels, every staged band is appended with its pixels,
  in staging order, and the band names of the result are pairwise different whenever
  those of the input are. A staged band carries the name of its definition unless a band
  at an earlier position of the result has that name; its name is always that of the
  definition, as it is or with a numeric suffix (at most one from combining the staged
  bands and one from adding them to the image).
\<close>

theorem colliding_band_is_renamed:
  "evaluated (staged_bands catalog ev img extra) = Inr bs \<longrightarrow>
     calculate_indices catalog ev img extra = Inr (img @ derived_bands img bs)
     \<and> map fst bs = map fst (staged_bands catalog ev img extra)
     \<and> map snd (derived_bands img bs) = map snd bs
     \<and> (distinct (map fst img) \<longrightarrow> distinct (map fst (img @ derived_bands img bs)))
     \<and> (i < length bs \<longrightarrow>
          (fst (derived_bands img bs ! i) = fst (bs ! i)
           \<or> fst (bs ! i) \<in> set (map fst (img @ take i (derived_bands img bs))))
          \<and> (\<exists>j k. fst (derived_bands img bs ! i) = numbered (numbered (fst (bs ! i)) j) k))"
proof (intro impI conjI)
  assume e: "evaluated (staged_bands catalog ev img extra) = Inr bs"
  show "calculate_indices catalog ev img extra = Inr (img @ derived_bands img bs)"
    using e by (rule calculate_indices_derived)
  show "map fst bs = map fst (staged_bands catalog ev img extra)"
    using e by (rule evaluated_names)
  show "map snd (derived_bands img bs) = map snd bs"
    by (rule map_snd_derived_bands)
  show "distinct (map fst (img @ derived_bands img bs))" if "distinct (map fst img)"
    using that by (rule distinct_derived_bands)
  show "fst (derived_bands img bs ! i) = fst (bs ! i)
        \<or> fst (bs ! i) \<in> set (map fst (img @ take i (derived_bands img bs)))"
    if "i < length bs"
    using that by (rule derived_bands_names)
  show "\<exists>j k. fst (derived_bands img bs ! i) = numbered (numbered (fst (bs ! i)) j) k"
    if "i < length bs"
    using that by (rule derived_bands_numbered)
qed

theorem colliding_band_is_renamed_witness:
  "\<not> isl (evaluated (staged_bands INDICES_CONFIG variable_expression full_image
        (Some [difference_custom ''B4'', difference_custom ''NDVI''])))
   \<and> map fst (staged_bands INDICES_CONFIG variable_expression full_image
        (Some [difference_custom ''B4'', difference_custom ''NDVI'']))
       = [''NDVI'', ''EVI'', ''SAVI'', ''NDRE'', ''NDBI'', ''UI'', ''IBI'', ''NDMI'', ''NDWI'',
          ''MNDWI'', ''BSI'', ''RI'', ''NBR'', ''BAI'', ''B4'', ''NDVI'']
   \<and> distinct (map fst full_image)
   \<and> band_names (calculate_indices INDICES_CONFIG variable_expression full_image
        (Some [difference_custom ''B4'', difference_custom ''NDVI'']))
       = Inr [''B2'', ''B3'', ''B4'', ''B5'', ''B8'', ''B8A'', ''B11'', ''B12'',
              ''NDVI'', ''EVI'', ''SAVI'', ''NDRE'', ''NDBI'', ''UI'', ''IBI'', ''NDMI'',
              ''NDWI'', ''MNDWI'', ''BSI'', ''RI'', ''NBR'', ''BAI'', ''B4_1'', ''NDVI_1'']
   \<and> ''B4_1'' = numbered (numbered ''B4'' 0) 1
   \<and> ''NDVI_1'' = numbered (numbered ''NDVI'' 1) 0
   \<and> distinct (map fst (full_image @ derived_bands full_image
        (projr (evaluated (staged_bands INDICES_CONFIG variable_expression full_image
           (Some [difference_custom ''B4'', difference_custom ''NDVI'']))))))
   \<and> ''B4'' \<in> set (map fst (full_image @ take 14 (derived_bands full_image
        (projr (evaluated (staged_bands INDICES_CONFIG variable_expression full_image
           (Some [difference_custom ''B4'', difference_custom ''NDVI''])))))))"
proof -
  let ?extra = "Some [difference_custom ''B4'', difference_custom ''NDVI'']"
  let ?staged = "staged_bands INDICES_CONFIG variable_expression full_image ?extra"
  let ?bs = "projr (evaluated ?staged)"
  let ?derived = "derived_bands full_image ?bs"
  have r: "\<not> isl (evaluated ?staged)" by code_simp
  then have e: "evaluated ?staged = Inr ?bs" by simp
  have s: "map fst ?staged
       = [''NDVI'', ''EVI'', ''SAVI'', ''NDRE'', ''NDBI'', ''UI'', ''IBI'', ''NDMI'', ''NDWI'',
          ''MNDWI'', ''BSI'', ''RI'', ''NBR'', ''BAI'', ''B4'', ''NDVI'']"
    by code_simp
  have d: "distinct (map fst full_image)" by code_simp
  have n: "band_names (calculate_indices INDICES_CONFIG variable_expression full_image ?extra)
       = Inr [''B2'', ''B3'', ''B4'', ''B5'', ''B8'', ''B8A'', ''B11'', ''B12'',
              ''NDVI'', ''EVI'', ''SAVI'', ''NDRE'', ''NDBI'', ''UI'', ''IBI'', ''NDMI'',
              ''NDWI'', ''MNDWI'', ''BSI'', ''RI'', ''NBR'', ''BAI'', ''B4_1'', ''NDVI_1'']"
    by code_simp
  have k: "''B4_1'' = numbered (numbered ''B4'' 0) 1"
    "''NDVI_1'' = numbered (numbered ''NDVI'' 1) 0"
    by code_simp+
  note c = colliding_band_is_renamed
    [of INDICES_CONFIG variable_expression full_image ?extra ?bs 14]
  from c e have g: "map fst ?bs = map fst ?staged" by blast
  from g s have f: "map fst ?bs
       = [''NDVI'', ''EVI'', ''SAVI'', ''NDRE'', ''NDBI'', ''UI'', ''IBI'', ''NDMI'', ''NDWI'',
          ''MNDWI'', ''BSI'', ''RI'', ''NBR'', ''BAI'', ''B4'', ''NDVI'']"
    by (rule trans)
  have "length (map fst ?bs) = 16" by (simp only: f) simp
  then have l: "14 < length ?bs" by simp
  have "map fst ?bs ! 14 = ''B4''" by (simp only: f) simp
  with l have b: "fst (?bs ! 14) = ''B4''" by (simp only: nth_map)
  have "fst (?derived ! 14) \<noteq> fst (?bs ! 14)" by code_simp
  with c e l
  have "fst (?bs ! 14) \<in> set (map fst (full_image @ take 14 ?derived))" by blast
  then have t: "''B4'' \<in> set (map fst (full_image @ take 14 ?derived))"
    by (simp only: b)
  from c e d have u: "distinct (map fst (full_image @ ?derived))" by blast
  from r s d n k u t show ?thesis by blast
qed

text \<open>
  The claim as stated fails where names collide: a user-defined index named B4 does not
  replace band B4 of the image, and one named NDVI does not replace the catalog's NDVI,
  although each is staged last under its name. The band under the name is the earlier
  one; the later one is kept under a suffixed name.
\<close>

theorem last_staged_wins_counterexample:
  "pixel_values (calculate_indices INDICES_CONFIG variable_expression full_image
      (Some [difference_custom ''B4'', difference_custom ''NDVI''])) 0
     = Inr [(''B2'', Some 500), (''B3'', Some 800), (''B4'', Some 1000), (''B5'', Some 1500),
            (''B8'', Some 5000), (''B8A'', Some 5200), (''B11'', Some 2000),
            (''B12'', Some 1200), (''NDVI'', Some (2 / 3)), (''EVI'', Some (40 / 69)),
            (''SAVI'', Some (6 / 11)), (''NDRE'', Some (7 / 13)), (''NDBI'', Some (- (3 / 7))),
            (''UI'', Some (- (5 / 8))), (''IBI'', Some (25 / 19)), (''NDMI'', Some (3 / 7)),
            (''NDWI'', Some (- (21 / 29))), (''MNDWI'', Some (- (3 / 7))),
            (''BSI'', Some (- (5 / 17))), (''RI'', Some (1 / 9)), (''NBR'', Some (19 / 31)),
            (''BAI'', Some (- (5 / 8))), (''B4_1'', Some 4000), (''NDVI_1'', Some 4000)]"
  by code_simp

end
